theory Spec2Isabelle
  imports Main
begin

section \<open>JavaScript values, errors and request state\<close>

text \<open>
  The backend is JavaScript. The values that the modelled functions test for
  truthiness, compare with \<^verbatim>\<open>===\<close> or call string methods on are kept
  as a small value type. An array stands for an array of strings (the column
  \<^verbatim>\<open>allowed_return_urls\<close> is \<^verbatim>\<open>TEXT[]\<close>); \<open>JObj\<close> is any other
  object.
\<close>

datatype jsval =
    Undefined
  | Null
  | JBool bool
  | JNum int
  | JStr string
  | JArr "string list"
  | JObj

fun truthy :: "jsval \<Rightarrow> bool" where
  "truthy Undefined = False"
| "truthy Null = False"
| "truthy (JBool b) = b"
| "truthy (JNum n) = (n \<noteq> 0)"
| "truthy (JStr s) = (s \<noteq> [])"
| "truthy (JArr xs) = True"
| "truthy JObj = True"

text \<open>\<^verbatim>\<open>Array.isArray\<close>.\<close>

fun isArray :: "jsval \<Rightarrow> bool" where
  "isArray (JArr xs) = True"
| "isArray v = False"

text \<open>
  A property that holds a string or is undefined: truthy when it is a
  non-empty string. \<open>orElse\<close> is \<^verbatim>\<open>a || b\<close> for such a property and a
  string default.
\<close>

definition truthyStr :: "string option \<Rightarrow> bool" where
  "truthyStr v = (case v of None \<Rightarrow> False | Some s \<Rightarrow> s \<noteq> [])"

definition orElse :: "string option \<Rightarrow> string \<Rightarrow> string" where
  "orElse v d = (case v of None \<Rightarrow> d | Some s \<Rightarrow> if s \<noteq> [] then s else d)"

text \<open>
  Modelled from the spec: the classes \<open>ValidationError\<close>, \<open>AuthError\<close> and
  \<open>NotFoundError\<close>, which the services import from
  \<^verbatim>\<open>middleware/errorHandler.js\<close>; that file is not among the sources.
  They are the validation, authentication and not-found classes of the
  specification's error taxonomy, each carrying its message.

  The other constructors are not of this repository: \<open>JsonWebTokenError\<close>
  and \<open>TokenExpiredError\<close> are the two error names of the token library
  that \<^verbatim>\<open>verifyApiToken\<close> tests for; \<open>Error\<close> is a plain
  \<^verbatim>\<open>new Error(msg)\<close>; \<open>TypeError\<close> is what the runtime raises for a
  method call on a value without that method; \<open>DatabaseError\<close> is a failed
  connection or statement.
\<close>

datatype error =
    ValidationError string
  | AuthError string
  | NotFoundError string
  | JsonWebTokenError string
  | TokenExpiredError string
  | Error string
  | TypeError string
  | DatabaseError string

text \<open>
  The metadata bag that \<^verbatim>\<open>setPoolContext\<close> stores in the session: the
  union of the keys written by the four resolver steps, each optional.
\<close>

record pool_metadata =
  m_client_id :: "string option"
  m_app_name :: "string option"
  m_client_mode :: "string option"
  m_return_url :: "string option"
  m_allowed_return_urls :: "string list option"
  m_token_type :: "string option"
  m_user_id :: "string option"
  m_user_role :: "string option"
  m_system_admin :: "bool option"
  m_owned_clients :: "nat option"
  m_fallback :: "bool option"
  m_reason :: "string option"

definition no_metadata :: pool_metadata where
  "no_metadata = \<lparr> m_client_id = None, m_app_name = None, m_client_mode = None,
     m_return_url = None, m_allowed_return_urls = None, m_token_type = None,
     m_user_id = None, m_user_role = None, m_system_admin = None,
     m_owned_clients = None, m_fallback = None, m_reason = None \<rparr>"

text \<open>
  \<^verbatim>\<open>req.session\<close>: the session object of express-session, which
  \<^verbatim>\<open>server.js\<close> installs before every other middleware of the
  application. It is stored under the session cookie and handed back on the
  next request of the same browser agent.
\<close>

record session =
  userId :: "string option"
  role :: "string option"
  poolContext :: "string option"
  schema :: "string option"
  poolMetadata :: "pool_metadata option"

definition fresh_session :: session where
  "fresh_session = \<lparr> userId = None, role = None, poolContext = None,
     schema = None, poolMetadata = None \<rparr>"

section \<open>Route guards of \<^verbatim>\<open>middleware/auth.js\<close>\<close>

text \<open>
  A middleware either calls \<^verbatim>\<open>next()\<close> or answers with a status and a
  message.
\<close>

datatype outcome = Next | Respond nat string

text \<open>
  \<^verbatim>\<open>hasRole(role)\<close>. The guard itself tests \<^verbatim>\<open>!req.session\<close>, so
  here the session is optional.
\<close>

definition hasRole :: "string \<Rightarrow> session option \<Rightarrow> outcome" where
  "hasRole r sess =
     (case sess of
        None \<Rightarrow> Respond 401 ''Authentication required''
      | Some s \<Rightarrow>
          if \<not> truthyStr (userId s) then Respond 401 ''Authentication required''
          else if role s \<noteq> Some r \<and> role s \<noteq> Some ''admin''
            then Respond 401 ''Insufficient permissions''
          else Next)"

section \<open>Role predicates of \<^verbatim>\<open>schemaDetection.js\<close> and guards of the pool service\<close>

definition POOL_AUTH_INTERNAL :: string where "POOL_AUTH_INTERNAL = ''auth_internal''"
definition POOL_CLIENT_TENANT :: string where "POOL_CLIENT_TENANT = ''client_tenant''"
definition POOL_API_CLIENT :: string where "POOL_API_CLIENT = ''api_client''"
definition POOL_DEFAULT :: string where "POOL_DEFAULT = ''default''"

definition ROLE_ADMIN :: string where "ROLE_ADMIN = ''admin''"
definition ROLE_OWNER :: string where "ROLE_OWNER = ''owner''"
definition ROLE_USER :: string where "ROLE_USER = ''user''"

text \<open>\<^verbatim>\<open>req.session?.poolMetadata?.user_role || USER_ROLES.USER\<close>.\<close>

definition getUserRole :: "session \<Rightarrow> string" where
  "getUserRole s =
     (case poolMetadata s of
        None \<Rightarrow> ROLE_USER
      | Some m \<Rightarrow> orElse (m_user_role m) ROLE_USER)"

definition isSystemAdmin :: "session \<Rightarrow> bool" where
  "isSystemAdmin s = (getUserRole s = ROLE_ADMIN)"

definition isClientOwner :: "session \<Rightarrow> bool" where
  "isClientOwner s = (getUserRole s = ROLE_OWNER)"

definition isTenantUser :: "session \<Rightarrow> bool" where
  "isTenantUser s = (getUserRole s = ROLE_USER)"

definition hasAdminContext :: "session \<Rightarrow> bool" where
  "hasAdminContext s = (poolContext s = Some POOL_AUTH_INTERNAL)"

definition requireAdminContext :: "session \<Rightarrow> error + unit" where
  "requireAdminContext s =
     (if \<not> hasAdminContext s
      then Inl (Error (''Admin privileges required. Current role: '' @ getUserRole s))
      else Inr ())"

definition requireSystemAdmin :: "session \<Rightarrow> error + unit" where
  "requireSystemAdmin s =
     (if \<not> isSystemAdmin s
      then Inl (Error (''System admin privileges required. Current role: '' @ getUserRole s))
      else Inr ())"

definition requireClientOwner :: "session \<Rightarrow> error + unit" where
  "requireClientOwner s =
     (if \<not> isClientOwner s
      then Inl (Error (''Client server owner privileges required. Current role: ''
                        @ getUserRole s))
      else Inr ())"

text \<open>A session whose resolved context carries the given role.\<close>

definition session_with_role :: "string \<Rightarrow> session" where
  "session_with_role r =
     fresh_session \<lparr> userId := Some ''u1'', poolContext := Some POOL_AUTH_INTERNAL,
        schema := Some ''auth_internal'',
        poolMetadata := Some (no_metadata \<lparr> m_user_id := Some ''u1'',
                                            m_user_role := Some r \<rparr>) \<rparr>"

section \<open>The tenant registry: \<^verbatim>\<open>client_servers\<close> rows and the world around the services\<close>

text \<open>
  A row of the table \<^verbatim>\<open>client_servers\<close>, with the columns of its DDL.
  The timestamps are milliseconds.
\<close>

record client_server =
  client_id :: string
  client_secret_hash :: string
  app_name :: string
  assigned_schema_name :: string
  allowed_return_urls :: "string list"
  user_id :: "string option"
  client_mode :: string
  created_at :: nat
  updated_at :: nat

text \<open>
  What the services read from their surroundings: two environment variables,
  the clock (\<^verbatim>\<open>Date.now()\<close>, milliseconds), the database and the
  password-hashing library. Acquiring the control-plane handle
  (\<^verbatim>\<open>getPool()\<close>) fails when \<open>db_up\<close> is false, and so does every
  statement.

  \<open>tables s\<close> is the relation \<^verbatim>\<open>client_servers\<close> of schema \<open>s\<close>,
  in insertion order, and \<open>None\<close> when schema \<open>s\<close> has no such relation.
  A statement that names \<^verbatim>\<open>client_servers\<close> without a schema reads or
  writes the relation of the first schema on the connection's search path
  that has one. The control-plane DDL sets its search path with
  \<^verbatim>\<open>set local\<close> inside its own transaction and
  \<^verbatim>\<open>getPoolForSchema\<close> sets it on one connection of its pool, so the
  search path in effect is part of the world: \<open>control_plane_path\<close> on
  the connections of the control-plane pool, \<open>default_tenant_path\<close> on
  those of the pool of the default schema.

  \<open>provision_ok n\<close> tells whether \<^verbatim>\<open>getPoolForSchema(n)\<close> succeeds.
  \<open>bcrypt_hash salt data\<close> and \<open>bcrypt_compare data hash\<close> are the two
  functions of the hashing library; the salt is drawn by the library.
\<close>

record world =
  JWT_SECRET :: "string option"
  SEED_SCHEMA :: "string option"
  now_ms :: nat
  db_up :: bool
  tables :: "string \<Rightarrow> client_server list option"
  control_plane_path :: "string list"
  default_tenant_path :: "string list"
  provision_ok :: "string \<Rightarrow> bool"
  bcrypt_hash :: "string \<Rightarrow> string \<Rightarrow> string"
  bcrypt_compare :: "string \<Rightarrow> string \<Rightarrow> bool"

text \<open>
  The random values one registration draws: the two UUIDs and the salt of the
  service function, then the two UUIDs and the salt that
  \<^verbatim>\<open>createClientServer\<close> of the admin repository draws for itself.
\<close>

record randomness =
  uuid_id :: string
  uuid_secret :: string
  salt :: string
  repo_uuid_id :: string
  repo_uuid_secret :: string
  repo_salt :: string

text \<open>\<^verbatim>\<open>process.env.SEED_SCHEMA || "client_template"\<close>.\<close>

definition default_schema :: "world \<Rightarrow> string" where
  "default_schema w = orElse (SEED_SCHEMA w) ''client_template''"

text \<open>\<^verbatim>\<open>getAuthInternalPool()\<close>, that is \<^verbatim>\<open>getPool()\<close>.\<close>

definition getAuthInternalPool :: "world \<Rightarrow> error + unit" where
  "getAuthInternalPool w =
     (if \<not> db_up w then Inl (DatabaseError ''connection failed'') else Inr ())"

text \<open>
  The relation that an unqualified \<^verbatim>\<open>client_servers\<close> denotes on a
  search path, with the schema it was found in.
\<close>

fun resolve_relation :: "(string \<Rightarrow> 'a option) \<Rightarrow> string list \<Rightarrow> (string \<times> 'a) option" where
  "resolve_relation t [] = None"
| "resolve_relation t (s # rest) =
     (case t s of
        Some rows \<Rightarrow> Some (s, rows)
      | None \<Rightarrow> resolve_relation t rest)"

definition unqualified_client_servers ::
  "world \<Rightarrow> string list \<Rightarrow> error + (string \<times> client_server list)" where
  "unqualified_client_servers w path =
     (if \<not> db_up w then Inl (DatabaseError ''connection failed'')
      else (case resolve_relation (tables w) path of
              None \<Rightarrow> Inl (DatabaseError ''relation client_servers does not exist'')
            | Some found \<Rightarrow> Inr found))"

text \<open>
  The service's \<^verbatim>\<open>repo\<close> is the namespace of
  \<^verbatim>\<open>repo/adminRepository.js\<close>
  (\<^verbatim>\<open>import * as repo from "../repo/adminRepository.js"\<close>). That module
  exports \<^verbatim>\<open>createClientServer\<close>, \<^verbatim>\<open>getClientServerByClientId\<close>,
  \<^verbatim>\<open>updateClientServer\<close>, \<^verbatim>\<open>deleteClientServer\<close>,
  \<^verbatim>\<open>getUserClientServers\<close>, \<^verbatim>\<open>getUserClientServer\<close>,
  \<^verbatim>\<open>updateUserClientServer\<close>, \<^verbatim>\<open>deleteUserClientServer\<close>,
  \<^verbatim>\<open>getAllClientServers\<close> and \<^verbatim>\<open>adminService\<close>; it exports no
  \<^verbatim>\<open>getClientServer\<close>. So \<^verbatim>\<open>repo.getClientServer\<close> is
  undefined, and the call \<^verbatim>\<open>repo.getClientServer(pool, client_id)\<close>
  raises a \<^verbatim>\<open>TypeError\<close> whatever the arguments.
\<close>

definition repo_getClientServer :: "string \<Rightarrow> error + client_server option" where
  "repo_getClientServer cid = Inl (TypeError ''repo.getClientServer is not a function'')"

text \<open>
  \<^verbatim>\<open>repo.createClientServer(pool, {...})\<close> is
  \<^verbatim>\<open>createClientServer(req, clientServerData)\<close> of the admin
  repository, called with the pool in the place of the request. It reads
  \<^verbatim>\<open>app_name\<close>, \<^verbatim>\<open>assigned_schema_name\<close>,
  \<^verbatim>\<open>allowed_return_urls\<close>, \<^verbatim>\<open>user_id\<close> and \<^verbatim>\<open>client_mode\<close>
  from the object; the \<^verbatim>\<open>client_id\<close> and \<^verbatim>\<open>client_secret_hash\<close>
  that the service put there (\<open>passed_id\<close>, \<open>passed_hash\<close>) are not read.
  It draws a client id and a secret of its own, hashes that secret, checks
  the three required fields (an array is truthy), and inserts through
  \<^verbatim>\<open>clientServersRepo.createClientServer(req, ...)\<close>. There
  \<^verbatim>\<open>getPoolForRequest(req)\<close> finds no \<^verbatim>\<open>session\<close> on the pool
  object, takes the default context and the default schema, and the
  \<^verbatim>\<open>INSERT INTO client_servers ... RETURNING *\<close> runs on the pool of the
  default schema. The insert fails on a duplicate primary key or a duplicate
  \<^verbatim>\<open>assigned_schema_name\<close> (declared \<^verbatim>\<open>UNIQUE\<close>);
  \<^verbatim>\<open>user_id || null\<close> stores no user for an empty id; the two
  timestamps default to \<^verbatim>\<open>NOW()\<close>. The result is the inserted row
  together with the secret drawn here.
\<close>

definition createClientServer ::
  "world \<Rightarrow> randomness \<Rightarrow> string \<Rightarrow> string \<Rightarrow> string \<Rightarrow> string \<Rightarrow> string list
     \<Rightarrow> string option \<Rightarrow> string \<Rightarrow> error + (client_server \<times> string \<times> world)" where
  "createClientServer w rnd passed_id passed_hash name sch urls uid mode =
     (let cid = ''client_'' @ filter (\<lambda>c. c \<noteq> CHR ''-'') (repo_uuid_id rnd);
          secret = repo_uuid_secret rnd;
          hash = bcrypt_hash w (repo_salt rnd) secret
      in if name = [] \<or> sch = []
         then Inl (Error ''app_name, assigned_schema_name, and allowed_return_urls are required'')
         else if \<not> provision_ok w (default_schema w)
           then Inl (DatabaseError ''schema initialisation failed'')
         else (case unqualified_client_servers w (default_tenant_path w) of
                 Inl e \<Rightarrow> Inl e
               | Inr (found_in, rows) \<Rightarrow>
                   if \<exists>c \<in> set rows. client_id c = cid \<or> assigned_schema_name c = sch
                   then Inl (DatabaseError ''duplicate key value violates unique constraint'')
                   else
                     (let row = \<lparr> client_id = cid, client_secret_hash = hash,
                                   app_name = name, assigned_schema_name = sch,
                                   allowed_return_urls = urls,
                                   user_id = (if truthyStr uid then uid else None),
                                   client_mode = mode,
                                   created_at = now_ms w, updated_at = now_ms w \<rparr>
                      in Inr (row, secret,
                              w \<lparr> tables := (tables w)(found_in \<mapsto> rows @ [row]) \<rparr>))))"

subsection \<open>Schema names\<close>

text \<open>
  \<^verbatim>\<open>`client_${app_name.toLowerCase().replace(/[^a-z0-9]/g, "_")}_${Date.now()}`\<close>.
  Characters are bytes here, so the model is that of the source on ASCII
  names: upper-case letters are lowered, every character outside
  \<^verbatim>\<open>[a-z0-9]\<close> becomes an underscore. \<open>string_of_nat\<close> writes
  a number in decimal, as the template literal does.
\<close>

definition toLowerCase_char :: "char \<Rightarrow> char" where
  "toLowerCase_char c =
     (case map_of (zip ''ABCDEFGHIJKLMNOPQRSTUVWXYZ'' ''abcdefghijklmnopqrstuvwxyz'') c of
        Some l \<Rightarrow> l
      | None \<Rightarrow> c)"

definition sanitize_char :: "char \<Rightarrow> char" where
  "sanitize_char c =
     (if c \<in> set ''abcdefghijklmnopqrstuvwxyz0123456789'' then c else CHR ''_'')"

definition digit_char :: "nat \<Rightarrow> char" where
  "digit_char d = ''0123456789'' ! d"

fun string_of_nat :: "nat \<Rightarrow> string" where
  "string_of_nat n =
     (if n < 10 then [digit_char n]
      else string_of_nat (n div 10) @ [digit_char (n mod 10)])"

declare string_of_nat.simps [simp del]

definition schema_name_for :: "string \<Rightarrow> nat \<Rightarrow> string" where
  "schema_name_for name t =
     ''client_'' @ map (sanitize_char \<circ> toLowerCase_char) name @ ''_'' @ string_of_nat t"

subsection \<open>Registration\<close>

text \<open>
  The fields that the two registration functions destructure from their
  input, as JavaScript values, and the \<^verbatim>\<open>data\<close> object they return.
\<close>

record client_data =
  d_app_name :: jsval
  d_allowed_return_urls :: jsval
  d_client_mode :: jsval

record registration =
  r_client_id :: string
  r_client_secret :: string
  r_app_name :: string
  r_assigned_schema_name :: string
  r_allowed_return_urls :: "string list"
  r_client_mode :: "string option"

text \<open>
  The part that both registration functions share after validation: draw the
  credentials, hash the secret, derive the schema name, obtain the
  control-plane pool, call \<^verbatim>\<open>repo.createClientServer\<close> (whose result
  is not used), initialise the schema, answer with the credentials drawn
  here. A truthy \<^verbatim>\<open>app_name\<close> that is not a string has no
  \<^verbatim>\<open>toLowerCase\<close>.
\<close>

definition register_core ::
  "world \<Rightarrow> randomness \<Rightarrow> jsval \<Rightarrow> string list \<Rightarrow> string option \<Rightarrow> string \<Rightarrow> string option
     \<Rightarrow> error + (registration \<times> world)" where
  "register_core w rnd name urls uid mode shown_mode =
     (let cid = ''client_'' @ filter (\<lambda>c. c \<noteq> CHR ''-'') (uuid_id rnd);
          secret = uuid_secret rnd;
          hash = bcrypt_hash w (salt rnd) secret
      in case name of
           JStr n \<Rightarrow>
             (let sch = schema_name_for n (now_ms w)
              in case getAuthInternalPool w of
                   Inl e \<Rightarrow> Inl e
                 | Inr handle \<Rightarrow>
                     (case createClientServer w rnd cid hash n sch urls uid mode of
                        Inl e \<Rightarrow> Inl e
                      | Inr (clientServer, repo_secret, w') \<Rightarrow>
                          if \<not> provision_ok w' sch
                          then Inl (DatabaseError ''schema initialisation failed'')
                          else Inr (\<lparr> r_client_id = cid, r_client_secret = secret,
                                       r_app_name = n, r_assigned_schema_name = sch,
                                       r_allowed_return_urls = urls,
                                       r_client_mode = shown_mode \<rparr>, w')))
         | _ \<Rightarrow> Inl (TypeError ''app_name.toLowerCase is not a function''))"

definition registerClientServer ::
  "world \<Rightarrow> randomness \<Rightarrow> client_data \<Rightarrow> error + (registration \<times> world)" where
  "registerClientServer w rnd body =
     (if \<not> truthy (d_app_name body) \<or> \<not> truthy (d_allowed_return_urls body)
         \<or> \<not> isArray (d_allowed_return_urls body)
      then Inl (ValidationError ''app_name and allowed_return_urls (array) are required'')
      else case d_allowed_return_urls body of
             JArr urls \<Rightarrow>
               register_core w rnd (d_app_name body) urls None ''api-auth-server'' None
           | _ \<Rightarrow> Inl (ValidationError ''app_name and allowed_return_urls (array) are required''))"

definition registerClientServerForUser ::
  "world \<Rightarrow> randomness \<Rightarrow> client_data \<Rightarrow> session \<Rightarrow> error + (registration \<times> world)" where
  "registerClientServerForUser w rnd clientData s =
     (let mode = (if d_client_mode clientData = Undefined then JStr ''frontend-login-proxy''
                  else d_client_mode clientData)
      in if \<not> truthyStr (userId s) then Inl (ValidationError ''User ID is required'')
         else if \<not> truthy (d_app_name clientData)
                 \<or> \<not> truthy (d_allowed_return_urls clientData)
                 \<or> \<not> isArray (d_allowed_return_urls clientData)
           then Inl (ValidationError ''app_name and allowed_return_urls (array) are required'')
         else if mode \<noteq> JStr ''frontend-login-proxy'' \<and> mode \<noteq> JStr ''api-auth-server''
           then Inl (ValidationError
                  (''client_mode must be 'frontend-login-proxy' or 'api-auth-server''
                     @ [CHR 0x27]))
         else case (d_allowed_return_urls clientData, mode) of
                (JArr urls, JStr m) \<Rightarrow>
                  register_core w rnd (d_app_name clientData) urls (userId s) m (Some m)
              | _ \<Rightarrow> Inl (ValidationError
                         ''app_name and allowed_return_urls (array) are required''))"

subsection \<open>Lookups\<close>

text \<open>
  \<^verbatim>\<open>getClientServerInfo\<close> obtains the control-plane pool, calls
  \<^verbatim>\<open>repo.getClientServer\<close> and would return the row without
  \<^verbatim>\<open>client_secret_hash\<close>; the owner-scoped queries select seven named
  columns from the unqualified \<^verbatim>\<open>client_servers\<close> on the
  control-plane pool.
\<close>

record client_info =
  i_client_id :: string
  i_app_name :: string
  i_assigned_schema_name :: string
  i_allowed_return_urls :: "string list"
  i_user_id :: "string option"
  i_client_mode :: string
  i_created_at :: nat
  i_updated_at :: nat

record client_summary =
  s_client_id :: string
  s_app_name :: string
  s_assigned_schema_name :: string
  s_allowed_return_urls :: "string list"
  s_client_mode :: string
  s_created_at :: nat
  s_updated_at :: nat

definition without_secret_hash :: "client_server \<Rightarrow> client_info" where
  "without_secret_hash c =
     \<lparr> i_client_id = client_id c, i_app_name = app_name c,
       i_assigned_schema_name = assigned_schema_name c,
       i_allowed_return_urls = allowed_return_urls c, i_user_id = user_id c,
       i_client_mode = client_mode c, i_created_at = created_at c,
       i_updated_at = updated_at c \<rparr>"

definition summary_columns :: "client_server \<Rightarrow> client_summary" where
  "summary_columns c =
     \<lparr> s_client_id = client_id c, s_app_name = app_name c,
       s_assigned_schema_name = assigned_schema_name c,
       s_allowed_return_urls = allowed_return_urls c,
       s_client_mode = client_mode c, s_created_at = created_at c,
       s_updated_at = updated_at c \<rparr>"

definition getClientServerInfo :: "world \<Rightarrow> string \<Rightarrow> error + client_info" where
  "getClientServerInfo w cid =
     (if cid = [] then Inl (ValidationError ''client_id is required'')
      else (case getAuthInternalPool w of
              Inl e \<Rightarrow> Inl e
            | Inr handle \<Rightarrow>
                (case repo_getClientServer cid of
                   Inl e \<Rightarrow> Inl e
                 | Inr None \<Rightarrow> Inl (NotFoundError ''Client server not found'')
                 | Inr (Some c) \<Rightarrow> Inr (without_secret_hash c))))"

text \<open>
  \<^verbatim>\<open>ORDER BY created_at DESC\<close>: newest first; rows of equal time keep
  their table order here (SQL leaves their order open).
\<close>

definition newest_first :: "client_server list \<Rightarrow> client_server list" where
  "newest_first rows = sort_key (\<lambda>c. - int (created_at c)) rows"

definition getUserClientServers :: "world \<Rightarrow> session \<Rightarrow> error + client_summary list" where
  "getUserClientServers w s =
     (if \<not> truthyStr (userId s) then Inl (ValidationError ''User ID is required'')
      else (case unqualified_client_servers w (control_plane_path w) of
              Inl e \<Rightarrow> Inl e
            | Inr (found_in, rows) \<Rightarrow>
                Inr (map summary_columns
                       (newest_first (filter (\<lambda>c. user_id c = userId s) rows)))))"

definition getUserClientServer :: "world \<Rightarrow> session \<Rightarrow> string \<Rightarrow> error + client_summary" where
  "getUserClientServer w s cid =
     (if \<not> truthyStr (userId s) \<or> cid = []
      then Inl (ValidationError ''User ID and Client ID are required'')
      else (case unqualified_client_servers w (control_plane_path w) of
              Inl e \<Rightarrow> Inl e
            | Inr (found_in, rows) \<Rightarrow>
                (case filter (\<lambda>c. user_id c = userId s \<and> client_id c = cid) rows of
                   [] \<Rightarrow> Inl (NotFoundError ''Client server not found or access denied'')
                 | c # _ \<Rightarrow> Inr (summary_columns c))))"

text \<open>
  A concrete world and concrete inputs, used to run the definitions. The
  database has an empty registry in \<^verbatim>\<open>auth_internal\<close> and in
  \<^verbatim>\<open>public\<close>; the control-plane connections have the server's
  default search path, the connections of the default tenant pool have the
  one that \<^verbatim>\<open>getPoolForSchema\<close> sets.
\<close>

definition toy_hash :: "string \<Rightarrow> string \<Rightarrow> string" where
  "toy_hash sl data = ''$2b$12$'' @ sl @ ''$'' @ rev data"

definition toy_compare :: "string \<Rightarrow> string \<Rightarrow> bool" where
  "toy_compare data h = (\<exists>sl \<in> {''s1'', ''s2'', ''s3''}. h = toy_hash sl data)"

definition empty_tables :: "string \<Rightarrow> client_server list option" where
  "empty_tables = [''auth_internal'' \<mapsto> [], ''public'' \<mapsto> []]"

definition empty_world :: world where
  "empty_world = \<lparr> JWT_SECRET = Some ''k'', SEED_SCHEMA = None, now_ms = 1700000000000,
     db_up = True, tables = empty_tables,
     control_plane_path = [''public''],
     default_tenant_path = [''client_template'', ''public''],
     provision_ok = (\<lambda>n. True), bcrypt_hash = toy_hash, bcrypt_compare = toy_compare \<rparr>"

definition rnd1 :: randomness where
  "rnd1 = \<lparr> uuid_id = ''aaaa-01'', uuid_secret = ''secret-01'', salt = ''s1'',
            repo_uuid_id = ''cccc-03'', repo_uuid_secret = ''secret-03'', repo_salt = ''s3'' \<rparr>"

definition acme_data :: client_data where
  "acme_data = \<lparr> d_app_name = JStr ''Acme'',
     d_allowed_return_urls = JArr [''https://acme.example/''],
     d_client_mode = Undefined \<rparr>"

text \<open>
  What the registration of Acme answers, the row it leaves in the database,
  and the world after it.
\<close>

definition acme_registration :: registration where
  "acme_registration = \<lparr> r_client_id = ''client_aaaa01'', r_client_secret = ''secret-01'',
     r_app_name = ''Acme'', r_assigned_schema_name = ''client_acme_1700000000000'',
     r_allowed_return_urls = [''https://acme.example/''], r_client_mode = None \<rparr>"

definition stored_row :: client_server where
  "stored_row = \<lparr> client_id = ''client_cccc03'',
     client_secret_hash = toy_hash ''s3'' ''secret-03'', app_name = ''Acme'',
     assigned_schema_name = ''client_acme_1700000000000'',
     allowed_return_urls = [''https://acme.example/''], user_id = None,
     client_mode = ''api-auth-server'',
     created_at = 1700000000000, updated_at = 1700000000000 \<rparr>"

definition registered_world :: world where
  "registered_world = empty_world \<lparr> tables := empty_tables(''public'' \<mapsto> [stored_row]) \<rparr>"

text \<open>
  The row that holds Acme's returned id and the hash of its returned secret,
  and a world whose registry holds that row.
\<close>

definition acme_row :: client_server where
  "acme_row = \<lparr> client_id = ''client_aaaa01'',
     client_secret_hash = toy_hash ''s1'' ''secret-01'', app_name = ''Acme'',
     assigned_schema_name = ''client_acme_1700000000000'',
     allowed_return_urls = [''https://acme.example/''], user_id = None,
     client_mode = ''api-auth-server'',
     created_at = 1700000000000, updated_at = 1700000000000 \<rparr>"

definition acme_world :: world where
  "acme_world = empty_world \<lparr> tables := empty_tables(''public'' \<mapsto> [acme_row]) \<rparr>"

section \<open>End-user accounts: \<^verbatim>\<open>register\<close> and \<^verbatim>\<open>login\<close> of the auth service\<close>

text \<open>
  A row of a tenant's \<^verbatim>\<open>users\<close> table and of its \<^verbatim>\<open>sessions\<close>
  table, and the tenant schemas as the service sees them through the client
  repository: for each schema name the rows of the two tables.
  \<open>store_up\<close> is false when the pool of the schema cannot be obtained.
\<close>

record user =
  u_id :: string
  u_name :: string
  u_role :: string
  u_email :: string
  u_password_hash :: string

record session_row =
  sr_id :: string
  sr_user_id :: string
  sr_session_id :: string

record tenant_store =
  store_up :: bool
  users :: "string \<Rightarrow> user list"
  sessions_tbl :: "string \<Rightarrow> session_row list"

text \<open>\<^verbatim>\<open>req.body\<close> of a registration and \<^verbatim>\<open>req.body.credentials\<close> of a login.\<close>

record user_data =
  ud_name :: "string option"
  ud_email :: "string option"
  ud_password :: "string option"
  ud_role :: "string option"

record credentials =
  email :: "string option"
  password :: "string option"

text \<open>
  The login response: the user row without \<^verbatim>\<open>password_hash\<close>
  (\<^verbatim>\<open>removePasswordFromUser\<close>), and the session's metadata.
\<close>

record login_response =
  l_id :: string
  l_name :: string
  l_role :: string
  l_email :: string
  l_poolMetadata :: "pool_metadata option"

text \<open>
  \<^verbatim>\<open>req.session?.schema || process.env.SEED_SCHEMA || "client_template"\<close>.
\<close>

definition schema_of_session :: "string option \<Rightarrow> session \<Rightarrow> string" where
  "schema_of_session seed s = orElse (schema s) (orElse seed ''client_template'')"

text \<open>
  \<^verbatim>\<open>repo.getUserByEmail\<close>: all users of the schema, then the first whose
  \<^verbatim>\<open>email\<close> is the given one.
\<close>

definition getUserByEmail :: "tenant_store \<Rightarrow> string \<Rightarrow> string \<Rightarrow> error + user option" where
  "getUserByEmail st sch e =
     (if \<not> store_up st then Inl (Error ''Failed to obtain a database pool in getUserByEmail.'')
      else Inr (find (\<lambda>u. u_email u = e) (users st sch)))"

text \<open>
  \<^verbatim>\<open>register(req)\<close>. The fourth element handed to
  \<^verbatim>\<open>repo.createUser\<close>, which the repository stores in the column
  \<^verbatim>\<open>password_hash\<close>, is \<^verbatim>\<open>userData.password\<close> itself. \<open>new_id\<close>
  is the UUID the repository draws; the insert fails on a duplicate key.
\<close>

definition register ::
  "string option \<Rightarrow> tenant_store \<Rightarrow> string \<Rightarrow> session \<Rightarrow> user_data
     \<Rightarrow> error + (string \<times> tenant_store)" where
  "register seed st new_id s userData =
     (let sch = schema_of_session seed s
      in if \<not> truthyStr (ud_name userData) \<or> \<not> truthyStr (ud_email userData)
            \<or> \<not> truthyStr (ud_password userData)
         then Inl (ValidationError ''Name, email, and password are required'')
         else case (ud_name userData, ud_email userData, ud_password userData) of
           (Some n, Some e, Some p) \<Rightarrow>
             (case getUserByEmail st sch e of
                Inl err \<Rightarrow> Inl err
              | Inr (Some existing) \<Rightarrow>
                  Inl (ValidationError ''User with this email already exists'')
              | Inr None \<Rightarrow>
                  (let r = orElse (ud_role userData) ''user'';
                       row = \<lparr> u_id = new_id, u_name = n, u_role = r, u_email = e,
                               u_password_hash = p \<rparr>
                   in if \<exists>u \<in> set (users st sch). u_id u = new_id
                      then Inl (DatabaseError ''duplicate key value violates unique constraint'')
                      else Inr (new_id, st \<lparr> users := (users st)(sch := users st sch @ [row]) \<rparr>)))
         | _ \<Rightarrow> Inl (ValidationError ''Name, email, and password are required''))"

text \<open>
  \<^verbatim>\<open>login(req)\<close>. The password test is
  \<^verbatim>\<open>user.password_hash !== credentials.password\<close>. On success the session
  gets \<^verbatim>\<open>userId\<close> and \<^verbatim>\<open>role\<close>, and a row is added to the schema's
  \<^verbatim>\<open>sessions\<close> table with two fresh UUIDs.
\<close>

definition login ::
  "string option \<Rightarrow> tenant_store \<Rightarrow> string \<Rightarrow> string \<Rightarrow> session \<Rightarrow> credentials
     \<Rightarrow> error + (login_response \<times> session \<times> tenant_store)" where
  "login seed st uuid1 uuid2 s cr =
     (let sch = schema_of_session seed s
      in if \<not> truthyStr (email cr) \<or> \<not> truthyStr (password cr)
         then Inl (ValidationError ''Email and password are required'')
         else case (email cr, password cr) of
           (Some e, Some p) \<Rightarrow>
             (case getUserByEmail st sch e of
                Inl err \<Rightarrow> Inl err
              | Inr None \<Rightarrow> Inl (AuthError ''Invalid credentials'')
              | Inr (Some u) \<Rightarrow>
                  if u_password_hash u \<noteq> p then Inl (AuthError ''Invalid credentials'')
                  else
                    (let s' = s \<lparr> userId := Some (u_id u), role := Some (u_role u) \<rparr>;
                         row = \<lparr> sr_id = uuid1, sr_user_id = u_id u, sr_session_id = uuid2 \<rparr>;
                         st' = st \<lparr> sessions_tbl :=
                                      (sessions_tbl st)(sch := sessions_tbl st sch @ [row]) \<rparr>
                     in Inr (\<lparr> l_id = u_id u, l_name = u_name u, l_role = u_role u,
                                l_email = u_email u, l_poolMetadata = poolMetadata s' \<rparr>,
                             s', st')))
         | _ \<Rightarrow> Inl (ValidationError ''Email and password are required''))"

definition empty_store :: tenant_store where
  "empty_store = \<lparr> store_up = True, users = (\<lambda>sch. []), sessions_tbl = (\<lambda>sch. []) \<rparr>"

definition ann :: user_data where
  "ann = \<lparr> ud_name = Some ''Ann'', ud_email = Some ''ann@example.com'',
           ud_password = Some ''hunter2'', ud_role = None \<rparr>"

definition ann_row :: user where
  "ann_row = \<lparr> u_id = ''id-1'', u_name = ''Ann'', u_role = ''user'',
               u_email = ''ann@example.com'', u_password_hash = ''hunter2'' \<rparr>"

definition ann_store :: tenant_store where
  "ann_store = empty_store \<lparr> users := (users empty_store)(''client_template'' := [ann_row]) \<rparr>"

section \<open>The connection pools: \<^verbatim>\<open>pools/auth.js\<close> and \<^verbatim>\<open>pools/clientServers.js\<close>\<close>

text \<open>
  The statements the two modules send. \<open>pg\<close> is the database server as
  the modules meet it: whether a connection can be opened, and which
  statements succeed. A handle (\<^verbatim>\<open>new Pool(...)\<close>) is a number, drawn
  from \<open>next_handle\<close>. The module state is the variable \<^verbatim>\<open>pool\<close> of
  the control-plane module and the object \<^verbatim>\<open>schemas\<close> of the tenant
  module; \<open>executed\<close> logs every statement sent, in order, so that a
  provisioning attempt can be observed.
\<close>

datatype stmt =
    Begin
  | CreateSchema string
  | SetLocalSearchPath string
  | CreateTable string string
  | Commit
  | SetSearchPath string

record pg =
  connect_ok :: bool
  stmt_ok :: "stmt \<Rightarrow> bool"

record pools =
  pool :: "nat option"
  schemas :: "string \<rightharpoonup> nat"
  next_handle :: nat
  executed :: "stmt list"

text \<open>\<^verbatim>\<open>ddl(tenant)\<close> of the two schema modules.\<close>

definition ddl_auth_internal :: "string \<Rightarrow> stmt list" where
  "ddl_auth_internal tenant =
     [Begin, CreateSchema tenant, SetLocalSearchPath tenant,
      CreateTable tenant ''client_servers'', Commit]"

definition ddl_client_template :: "string \<Rightarrow> stmt list" where
  "ddl_client_template tenant =
     [Begin, CreateSchema tenant, SetLocalSearchPath tenant,
      CreateTable tenant ''users'', CreateTable tenant ''sessions'', Commit]"

text \<open>
  \<^verbatim>\<open>for (const stmt of statements) await pool.query(stmt)\<close>: the statements
  sent, up to and including the first that fails, and whether all succeeded.
\<close>

fun run_statements :: "pg \<Rightarrow> stmt list \<Rightarrow> stmt list \<times> bool" where
  "run_statements db [] = ([], True)"
| "run_statements db (s # ss) =
     (if stmt_ok db s
      then (case run_statements db ss of (sent, ok) \<Rightarrow> (s # sent, ok))
      else ([s], False))"

text \<open>
  \<^verbatim>\<open>getPool()\<close> of the control plane. The assignment
  \<^verbatim>\<open>pool = new Pool(...)\<close> comes first; \<^verbatim>\<open>pool.connect()\<close> and
  \<^verbatim>\<open>initSchema()\<close> follow.
\<close>

definition getPool :: "pg \<Rightarrow> pools \<Rightarrow> (error + nat) \<times> pools" where
  "getPool db st =
     (case pool st of
        Some h \<Rightarrow> (Inr h, st)
      | None \<Rightarrow>
          (let h = next_handle st;
               st1 = st \<lparr> pool := Some h, next_handle := Suc h \<rparr>
           in if \<not> connect_ok db then (Inl (DatabaseError ''connection failed''), st1)
              else case run_statements db (ddl_auth_internal ''auth_internal'') of
                (sent, ok) \<Rightarrow>
                  (let st2 = st1 \<lparr> executed := executed st1 @ sent \<rparr>
                   in if ok then (Inr h, st2)
                      else (Inl (DatabaseError ''statement failed''), st2))))"

text \<open>
  \<^verbatim>\<open>initSchema(currentPool, schemaName)\<close> of the tenant module, and
  \<^verbatim>\<open>getPoolForSchema(schemaName = "client_template")\<close>: the handle is
  stored in \<^verbatim>\<open>schemas\<close> after \<^verbatim>\<open>initSchema\<close> has returned, and the
  search path is set last.
\<close>

definition initSchema_statements :: "string \<Rightarrow> stmt list" where
  "initSchema_statements schemaName =
     CreateSchema schemaName #
       (if schemaName = ''client_template'' then [] else ddl_client_template schemaName)"

definition getPoolForSchema :: "pg \<Rightarrow> pools \<Rightarrow> string option \<Rightarrow> (error + nat) \<times> pools" where
  "getPoolForSchema db st arg =
     (let schemaName = (case arg of None \<Rightarrow> ''client_template'' | Some n \<Rightarrow> n)
      in case schemas st schemaName of
           Some h \<Rightarrow> (Inr h, st)
         | None \<Rightarrow>
             (let h = next_handle st;
                  st1 = st \<lparr> next_handle := Suc h \<rparr>
              in if \<not> connect_ok db then (Inl (DatabaseError ''connection failed''), st1)
                 else case run_statements db (initSchema_statements schemaName) of
                   (sent, ok) \<Rightarrow>
                     (let st2 = st1 \<lparr> executed := executed st1 @ sent \<rparr>
                      in if \<not> ok then (Inl (DatabaseError ''statement failed''), st2)
                         else
                           (let st3 = st2 \<lparr> schemas := (schemas st2)(schemaName \<mapsto> h),
                                            executed := executed st2 @ [SetSearchPath schemaName] \<rparr>
                            in if stmt_ok db (SetSearchPath schemaName) then (Inr h, st3)
                               else (Inl (DatabaseError ''statement failed''), st3)))))"

definition no_pools :: pools where
  "no_pools = \<lparr> pool = None, schemas = Map.empty, next_handle = 0, executed = [] \<rparr>"

text \<open>
  A server on which creating the registry table fails, one on which creating
  a tenant's \<^verbatim>\<open>users\<close> table fails, and a healthy one.
\<close>

definition pg_registry_fails :: pg where
  "pg_registry_fails =
     \<lparr> connect_ok = True,
       stmt_ok = (\<lambda>s. s \<noteq> CreateTable ''auth_internal'' ''client_servers'') \<rparr>"

definition pg_users_fails :: pg where
  "pg_users_fails =
     \<lparr> connect_ok = True, stmt_ok = (\<lambda>s. s \<noteq> CreateTable ''client_acme_1'' ''users'') \<rparr>"

definition pg_healthy :: pg where
  "pg_healthy = \<lparr> connect_ok = True, stmt_ok = (\<lambda>s. True) \<rparr>"

section \<open>API tokens: \<^verbatim>\<open>authenticateClientServer\<close> and \<^verbatim>\<open>verifyApiToken\<close>\<close>

text \<open>
  The token library, as far as the services use it. A signed token carries
  the key it was signed with and its payload; its times are seconds.
  \<open>Opaque s\<close> is any other string (it does not parse as a token; the empty
  string is \<open>Opaque []\<close>). Signing with \<^verbatim>\<open>expiresIn: "24h"\<close> sets
  \<^verbatim>\<open>exp = iat + 86400\<close>. Verification rejects a malformed token and a
  wrong signature with \<^verbatim>\<open>JsonWebTokenError\<close>, then an elapsed
  \<^verbatim>\<open>exp\<close> with \<^verbatim>\<open>TokenExpiredError\<close>.
\<close>

record payload =
  t_client_id :: string
  t_schema :: string
  t_type :: "string option"
  iat :: nat
  exp :: "nat option"

datatype token = Opaque string | Signed string payload

definition jwt_sign_24h :: "string \<Rightarrow> string \<Rightarrow> string \<Rightarrow> string \<Rightarrow> nat \<Rightarrow> token" where
  "jwt_sign_24h cid sch typ key now_s =
     Signed key \<lparr> t_client_id = cid, t_schema = sch, t_type = Some typ,
                  iat = now_s, exp = Some (now_s + 86400) \<rparr>"

definition jwt_verify :: "token \<Rightarrow> string \<Rightarrow> nat \<Rightarrow> error + payload" where
  "jwt_verify tok key now_s =
     (case tok of
        Opaque s \<Rightarrow> Inl (JsonWebTokenError ''jwt malformed'')
      | Signed k p \<Rightarrow>
          if k \<noteq> key then Inl (JsonWebTokenError ''invalid signature'')
          else (case exp p of
                  None \<Rightarrow> Inr p
                | Some e \<Rightarrow> if e \<le> now_s then Inl (TokenExpiredError ''jwt expired'')
                            else Inr p))"

text \<open>
  \<^verbatim>\<open>process.env.JWT_SECRET || "your-jwt-secret"\<close>, and the clock in seconds.
\<close>

definition jwt_secret :: "world \<Rightarrow> string" where
  "jwt_secret w = orElse (JWT_SECRET w) ''your-jwt-secret''"

definition now_s :: "world \<Rightarrow> nat" where
  "now_s w = now_ms w div 1000"

text \<open>\<^verbatim>\<open>req.body\<close> of an authentication and its \<^verbatim>\<open>data\<close> answer.\<close>

record auth_body =
  a_client_id :: "string option"
  a_client_secret :: "string option"

record auth_response =
  a_token :: token
  a_expires_in :: nat
  a_schema :: string

definition authenticateClientServer :: "world \<Rightarrow> auth_body \<Rightarrow> error + auth_response" where
  "authenticateClientServer w body =
     (if \<not> truthyStr (a_client_id body) \<or> \<not> truthyStr (a_client_secret body)
      then Inl (ValidationError ''client_id and client_secret are required'')
      else case (a_client_id body, a_client_secret body) of
        (Some cid, Some secret) \<Rightarrow>
          (case getAuthInternalPool w of
             Inl e \<Rightarrow> Inl e
           | Inr handle \<Rightarrow>
               (case repo_getClientServer cid of
                  Inl e \<Rightarrow> Inl e
                | Inr None \<Rightarrow> Inl (AuthError ''Invalid client credentials'')
                | Inr (Some clientServer) \<Rightarrow>
                    if \<not> bcrypt_compare w secret (client_secret_hash clientServer)
                    then Inl (AuthError ''Invalid client credentials'')
                    else Inr \<lparr> a_token = jwt_sign_24h cid (assigned_schema_name clientServer)
                                            ''api_token'' (jwt_secret w) (now_s w),
                               a_expires_in = 86400,
                               a_schema = assigned_schema_name clientServer \<rparr>))
      | _ \<Rightarrow> Inl (ValidationError ''client_id and client_secret are required''))"

text \<open>What \<^verbatim>\<open>verifyApiToken\<close> returns.\<close>

record client_context =
  ci_client_id :: string
  ci_schema :: string
  ci_app_name :: string
  ci_allowed_return_urls :: "string list"

text \<open>
  The body of the \<^verbatim>\<open>try\<close> block of \<^verbatim>\<open>verifyApiToken\<close>, then the
  function with its \<^verbatim>\<open>catch\<close>, which turns the two error names of the
  token library into an \<^verbatim>\<open>AuthError\<close> and rethrows everything else.
\<close>

definition verifyApiToken_body :: "world \<Rightarrow> token \<Rightarrow> error + client_context" where
  "verifyApiToken_body w tok =
     (if tok = Opaque [] then Inl (AuthError ''API token is required'')
      else (case jwt_verify tok (jwt_secret w) (now_s w) of
        Inl e \<Rightarrow> Inl e
      | Inr decoded \<Rightarrow>
          if t_type decoded \<noteq> Some ''api_token'' then Inl (AuthError ''Invalid token type'')
          else (case getAuthInternalPool w of
                  Inl e \<Rightarrow> Inl e
                | Inr handle \<Rightarrow>
                    (case repo_getClientServer (t_client_id decoded) of
                       Inl e \<Rightarrow> Inl e
                     | Inr None \<Rightarrow> Inl (AuthError ''Client server not found'')
                     | Inr (Some clientServer) \<Rightarrow>
                         Inr \<lparr> ci_client_id = t_client_id decoded,
                                ci_schema = t_schema decoded,
                                ci_app_name = app_name clientServer,
                                ci_allowed_return_urls =
                                  allowed_return_urls clientServer \<rparr>))))"

fun is_token_library_error :: "error \<Rightarrow> bool" where
  "is_token_library_error (JsonWebTokenError m) = True"
| "is_token_library_error (TokenExpiredError m) = True"
| "is_token_library_error e = False"

definition verifyApiToken :: "world \<Rightarrow> token \<Rightarrow> error + client_context" where
  "verifyApiToken w tok =
     (case verifyApiToken_body w tok of
        Inl e \<Rightarrow> if is_token_library_error e then Inl (AuthError ''Invalid or expired token'')
                 else Inl e
      | Inr info \<Rightarrow> Inr info)"

text \<open>The Acme world a day later, and the credentials of Acme.\<close>

definition acme_world_next_day :: world where
  "acme_world_next_day = acme_world \<lparr> now_ms := 1700000000000 + 86400000 \<rparr>"

definition acme_credentials :: auth_body where
  "acme_credentials = \<lparr> a_client_id = Some ''client_aaaa01'',
                        a_client_secret = Some ''secret-01'' \<rparr>"

definition acme_payload :: payload where
  "acme_payload = \<lparr> t_client_id = ''client_aaaa01'',
     t_schema = ''client_acme_1700000000000'', t_type = Some ''api_token'',
     iat = 1700000000, exp = Some 1700086400 \<rparr>"

section \<open>The tenant resolver: \<^verbatim>\<open>middleware/schemaDetection.js\<close>\<close>

text \<open>
  The request, as far as the resolver reads and writes it. The
  \<^verbatim>\<open>Authorization\<close> header is kept parsed: \<open>Bearer t\<close> is a header that
  starts with \<^verbatim>\<open>"Bearer "\<close> and whose remainder
  (\<^verbatim>\<open>authHeader.substring(7)\<close>) is the token \<open>t\<close>; \<open>OtherScheme s\<close> is
  any other non-empty header. \<open>returnUrl\<close> is \<^verbatim>\<open>req.body?.returnUrl\<close>.
  \<open>req_session\<close> is \<^verbatim>\<open>req.session\<close>, \<open>req_schema\<close> is
  \<^verbatim>\<open>req.schema\<close>.
\<close>

datatype auth_header = Bearer token | OtherScheme string

record request =
  authorization :: "auth_header option"
  returnUrl :: jsval
  req_session :: session
  req_schema :: "string option"
  clientContext :: "client_context option"

definition setPoolContext :: "session \<Rightarrow> string \<Rightarrow> string \<Rightarrow> pool_metadata \<Rightarrow> session" where
  "setPoolContext s context sch metadata =
     s \<lparr> poolContext := Some context, schema := Some sch, poolMetadata := Some metadata \<rparr>"

subsection \<open>Step 1: the bearer token\<close>

definition detectSchemaFromApiToken :: "world \<Rightarrow> request \<Rightarrow> request" where
  "detectSchemaFromApiToken w req =
     (case authorization req of
        Some (Bearer tok) \<Rightarrow>
          (case verifyApiToken w tok of
             Inl tokenError \<Rightarrow> req
           | Inr clientInfo \<Rightarrow>
               req \<lparr> req_session :=
                       setPoolContext (req_session req) POOL_API_CLIENT (ci_schema clientInfo)
                         (no_metadata \<lparr> m_client_id := Some (ci_client_id clientInfo),
                            m_app_name := Some (ci_app_name clientInfo),
                            m_allowed_return_urls := Some (ci_allowed_return_urls clientInfo),
                            m_token_type := Some ''api_token'',
                            m_user_role := Some ''api_client'' \<rparr>),
                     clientContext := Some clientInfo \<rparr>)
      | _ \<Rightarrow> req)"

subsection \<open>Step 2: the return URL\<close>

text \<open>
  \<^verbatim>\<open>allowedUrl && returnUrl && returnUrl.startsWith(allowedUrl)\<close>: an empty
  allowed URL or a falsy return URL gives no match; a truthy return URL that
  is not a string has no \<^verbatim>\<open>startsWith\<close>. Then
  \<^verbatim>\<open>allowed_return_urls.some(...)\<close> and \<^verbatim>\<open>clientServers.find(...)\<close>,
  both left to right, stopping at the first match or error.
\<close>

definition startsWith :: "string \<Rightarrow> string \<Rightarrow> bool" where
  "startsWith s p = (take (length p) s = p)"

definition url_matches :: "string \<Rightarrow> jsval \<Rightarrow> error + bool" where
  "url_matches allowedUrl ru =
     (if allowedUrl = [] then Inr False
      else if \<not> truthy ru then Inr False
      else (case ru of
              JStr u \<Rightarrow> Inr (startsWith u allowedUrl)
            | _ \<Rightarrow> Inl (TypeError ''returnUrl.startsWith is not a function'')))"

fun some_allowed :: "jsval \<Rightarrow> string list \<Rightarrow> error + bool" where
  "some_allowed ru [] = Inr False"
| "some_allowed ru (a # rest) =
     (case url_matches a ru of
        Inl e \<Rightarrow> Inl e
      | Inr True \<Rightarrow> Inr True
      | Inr False \<Rightarrow> some_allowed ru rest)"

fun find_matching :: "jsval \<Rightarrow> client_server list \<Rightarrow> error + client_server option" where
  "find_matching ru [] = Inr None"
| "find_matching ru (c # rest) =
     (case some_allowed ru (allowed_return_urls c) of
        Inl e \<Rightarrow> Inl e
      | Inr True \<Rightarrow> Inr (Some c)
      | Inr False \<Rightarrow> find_matching ru rest)"

text \<open>
  \<^verbatim>\<open>SELECT * FROM auth_internal.client_servers UNION ALL SELECT * FROM
  public.client_servers\<close> on the control-plane handle: both relations are
  named with their schema, and the statement fails when either is missing.
\<close>

definition all_client_servers :: "world \<Rightarrow> error + client_server list" where
  "all_client_servers w =
     (if \<not> db_up w then Inl (DatabaseError ''connection failed'')
      else (case (tables w ''auth_internal'', tables w ''public'') of
              (Some internal, Some legacy) \<Rightarrow> Inr (internal @ legacy)
            | _ \<Rightarrow> Inl (DatabaseError ''relation client_servers does not exist'')))"

text \<open>The client, if any, that step 2 finds for the request.\<close>

definition matchingClient :: "world \<Rightarrow> request \<Rightarrow> error + client_server option" where
  "matchingClient w req =
     (if returnUrl req = Null \<or> returnUrl req = Undefined then Inr None
      else (case all_client_servers w of
              Inl e \<Rightarrow> Inl e
            | Inr clientServers \<Rightarrow> find_matching (returnUrl req) clientServers))"

definition string_of_jsval :: "jsval \<Rightarrow> string option" where
  "string_of_jsval v = (case v of JStr u \<Rightarrow> Some u | _ \<Rightarrow> None)"

text \<open>
  \<^verbatim>\<open>detectSchemaFromReturnUrl\<close>: on any error inside its \<^verbatim>\<open>try\<close>
  block the \<^verbatim>\<open>catch\<close> calls \<^verbatim>\<open>next()\<close> and the request is as
  it was.
\<close>

definition detectSchemaFromReturnUrl :: "world \<Rightarrow> request \<Rightarrow> request" where
  "detectSchemaFromReturnUrl w req =
     (case matchingClient w req of
        Inl error \<Rightarrow> req
      | Inr None \<Rightarrow> req
      | Inr (Some c) \<Rightarrow>
          req \<lparr> req_session :=
                  setPoolContext (req_session req) POOL_CLIENT_TENANT (assigned_schema_name c)
                    (no_metadata \<lparr> m_client_id := Some (client_id c),
                       m_app_name := Some (app_name c),
                       m_client_mode := Some (client_mode c),
                       m_return_url := string_of_jsval (returnUrl req),
                       m_allowed_return_urls := Some (allowed_return_urls c),
                       m_user_role := Some ROLE_USER \<rparr>) \<rparr>)"

subsection \<open>Step 3: the role of the logged-in user\<close>

text \<open>
  \<^verbatim>\<open>SELECT COUNT(*) as client_count FROM client_servers WHERE user_id = $1\<close>
  on the control-plane handle, the relation not being qualified.
\<close>

definition client_count :: "world \<Rightarrow> string option \<Rightarrow> error + nat" where
  "client_count w uid =
     (case unqualified_client_servers w (control_plane_path w) of
        Inl e \<Rightarrow> Inl e
      | Inr (found_in, rows) \<Rightarrow> Inr (length (filter (\<lambda>c. user_id c = uid) rows)))"

definition detectUserRole :: "world \<Rightarrow> request \<Rightarrow> request" where
  "detectUserRole w req =
     (let s = req_session req
      in if truthyStr (userId s) \<and> \<not> truthyStr (poolContext s)
         then
           if role s = Some ''admin''
           then req \<lparr> req_session :=
                        setPoolContext s POOL_AUTH_INTERNAL ''auth_internal''
                          (no_metadata \<lparr> m_user_id := userId s,
                             m_user_role := Some ROLE_ADMIN,
                             m_system_admin := Some True \<rparr>) \<rparr>
           else (case client_count w (userId s) of
                   Inl error \<Rightarrow> req
                 | Inr n \<Rightarrow>
                     if 0 < n
                     then req \<lparr> req_session :=
                                  setPoolContext s POOL_AUTH_INTERNAL ''auth_internal''
                                    (no_metadata \<lparr> m_user_id := userId s,
                                       m_user_role := Some ROLE_OWNER,
                                       m_owned_clients := Some n \<rparr>) \<rparr>
                     else req \<lparr> req_session :=
                                  setPoolContext s POOL_DEFAULT (default_schema w)
                                    (no_metadata \<lparr> m_user_id := userId s,
                                       m_user_role := Some ROLE_USER,
                                       m_reason := Some ''regular_user'' \<rparr>) \<rparr>)
         else req)"

subsection \<open>Step 4 and the combined resolver\<close>

definition setDefaultSchema :: "world \<Rightarrow> request \<Rightarrow> request" where
  "setDefaultSchema w req =
     (if \<not> truthyStr (poolContext (req_session req))
      then req \<lparr> req_session :=
                   setPoolContext (req_session req) POOL_DEFAULT (default_schema w)
                     (no_metadata \<lparr> m_fallback := Some True,
                        m_reason := Some ''no_specific_context'',
                        m_user_role := Some ROLE_USER \<rparr>) \<rparr>
      else if truthyStr (schema (req_session req)) \<and> \<not> truthyStr (req_schema req)
        then req \<lparr> req_schema := schema (req_session req) \<rparr>
      else req)"

text \<open>
  \<^verbatim>\<open>detectSchema\<close>. Each of the three detection steps catches its own
  errors, and \<^verbatim>\<open>setDefaultSchema\<close> raises none on a request that has a
  session, so the \<^verbatim>\<open>catch\<close> of \<^verbatim>\<open>detectSchema\<close> is not entered.
\<close>

definition detectSchema :: "world \<Rightarrow> request \<Rightarrow> request" where
  "detectSchema w req =
     (let r1 = detectSchemaFromApiToken w req;
          r2 = (if \<not> truthyStr (poolContext (req_session r1))
                then detectSchemaFromReturnUrl w r1 else r1);
          r3 = (if \<not> truthyStr (poolContext (req_session r2))
                then detectUserRole w r2 else r2)
      in setDefaultSchema w r3)"

text \<open>\<^verbatim>\<open>getSchemaFromRequest\<close>.\<close>

definition getSchemaFromRequest :: "world \<Rightarrow> request \<Rightarrow> string" where
  "getSchemaFromRequest w req =
     orElse (req_schema req) (orElse (schema (req_session req)) (default_schema w))"

text \<open>
  The resolved context of a request: pool context, schema and role, as the
  handlers read them from the session.
\<close>

definition resolved :: "request \<Rightarrow> string option \<times> string option \<times> string" where
  "resolved req =
     (poolContext (req_session req), schema (req_session req), getUserRole (req_session req))"

text \<open>
  A second tenant, Beta, in the registry beside Acme; a plain request with a
  given session; and requests built from it.
\<close>

definition beta_row :: client_server where
  "beta_row = \<lparr> client_id = ''client_bbbb02'',
     client_secret_hash = toy_hash ''s2'' ''secret-02'', app_name = ''Beta'',
     assigned_schema_name = ''client_beta_1700000000001'',
     allowed_return_urls = [''https://beta.example/''], user_id = Some ''u7'',
     client_mode = ''frontend-login-proxy'',
     created_at = 1700000000001, updated_at = 1700000000001 \<rparr>"

definition two_tenants :: world where
  "two_tenants =
     empty_world \<lparr> tables := empty_tables(''public'' \<mapsto> [acme_row, beta_row]) \<rparr>"

definition plain_request :: "session \<Rightarrow> request" where
  "plain_request s = \<lparr> authorization = None, returnUrl = Undefined, req_session = s,
                       req_schema = None, clientContext = None \<rparr>"

definition beta_login_page :: "session \<Rightarrow> request" where
  "beta_login_page s = (plain_request s) \<lparr> returnUrl := JStr ''https://beta.example/dashboard'' \<rparr>"

definition acme_token_on_beta_url :: "session \<Rightarrow> request" where
  "acme_token_on_beta_url s =
     (beta_login_page s) \<lparr> authorization := Some (Bearer (Signed ''k'' acme_payload)) \<rparr>"

definition stale_tenant_session :: session where
  "stale_tenant_session =
     fresh_session \<lparr> poolContext := Some ''client_tenant'',
        schema := Some ''client_acme_1700000000000'',
        poolMetadata := Some (no_metadata \<lparr> m_client_id := Some ''client_aaaa01'',
                                            m_user_role := Some ''user'' \<rparr>) \<rparr>"

section \<open>Properties of the guards\<close>

text \<open>
  C10. For every role string \<open>r\<close>, \<^verbatim>\<open>hasRole(r)\<close> calls
  \<^verbatim>\<open>next()\<close> exactly when the request has a session that holds a (truthy)
  \<^verbatim>\<open>userId\<close> and whose role is \<open>r\<close> or \<^verbatim>\<open>"admin"\<close>; a session
  with role \<^verbatim>\<open>"admin"\<close> and a userId passes for every \<open>r\<close>; a request
  without a session or without a userId is answered with status 401.
\<close>

theorem hasRole_admits_iff:
  "(hasRole r sess = Next \<longleftrightarrow>
      (\<exists>s. sess = Some s \<and> truthyStr (userId s)
           \<and> (role s = Some r \<or> role s = Some ''admin'')))
   \<and> (\<forall>s. truthyStr (userId s) \<and> role s = Some ''admin'' \<longrightarrow> hasRole r (Some s) = Next)
   \<and> hasRole r None = Respond 401 ''Authentication required''
   \<and> (\<forall>s. \<not> truthyStr (userId s)
          \<longrightarrow> hasRole r (Some s) = Respond 401 ''Authentication required'')
   \<and> (\<forall>code msg. hasRole r sess = Respond code msg \<longrightarrow> code = 401)"
  by (auto simp: hasRole_def split: option.splits if_splits)

theorem hasRole_admits_iff_witness:
  "hasRole ''owner'' (Some (fresh_session \<lparr> userId := Some ''u1'', role := Some ''admin'' \<rparr>)) = Next
   \<and> hasRole ''owner'' (Some (fresh_session \<lparr> userId := Some ''u1'', role := Some ''owner'' \<rparr>)) = Next
   \<and> hasRole ''owner'' (Some (fresh_session \<lparr> userId := Some ''u1'', role := Some ''user'' \<rparr>))
       = Respond 401 ''Insufficient permissions''
   \<and> hasRole ''owner'' (Some (fresh_session \<lparr> role := Some ''admin'' \<rparr>))
       = Respond 401 ''Authentication required''"
  using hasRole_admits_iff [of "''owner''"
      "Some (fresh_session \<lparr> userId := Some ''u1'', role := Some ''admin'' \<rparr>)"]
  by (simp add: hasRole_def fresh_session_def truthyStr_def)

text \<open>
  C5 (as the code has it). \<^verbatim>\<open>requireClientOwner\<close> passes exactly when the
  role of the resolved context is \<^verbatim>\<open>"owner"\<close>. A system administrator
  (role \<^verbatim>\<open>"admin"\<close>) is rejected like every other role, and the rejection
  is a plain \<^verbatim>\<open>Error\<close> whose message names the current role.
\<close>

theorem requireClientOwner_owner_only:
  "(requireClientOwner s = Inr () \<longleftrightarrow>
      (\<exists>m. poolMetadata s = Some m \<and> m_user_role m = Some ''owner''))
   \<and> (isSystemAdmin s \<longrightarrow>
        requireClientOwner s =
          Inl (Error ''Client server owner privileges required. Current role: admin''))
   \<and> (\<forall>e. requireClientOwner s = Inl e \<longrightarrow>
        e = Error (''Client server owner privileges required. Current role: ''
                   @ getUserRole s))"
  by (auto simp: requireClientOwner_def isClientOwner_def isSystemAdmin_def getUserRole_def
        orElse_def ROLE_OWNER_def ROLE_USER_def ROLE_ADMIN_def
      split: option.splits if_splits)

theorem requireClientOwner_owner_only_witness:
  "requireClientOwner (session_with_role ''owner'') = Inr ()
   \<and> isSystemAdmin (session_with_role ''admin'')
   \<and> requireClientOwner (session_with_role ''user'')
       = Inl (Error ''Client server owner privileges required. Current role: user'')"
  using requireClientOwner_owner_only [of "session_with_role ''owner''"]
    requireClientOwner_owner_only [of "session_with_role ''admin''"]
  by (simp add: session_with_role_def fresh_session_def no_metadata_def
        requireClientOwner_def isClientOwner_def isSystemAdmin_def getUserRole_def
        orElse_def ROLE_OWNER_def ROLE_USER_def ROLE_ADMIN_def)

text \<open>
  C5 as the specification states it fails: a context with tier system
  administrator does not pass the owner check.
\<close>

theorem requireClientOwner_rejects_admin:
  "requireClientOwner (session_with_role ''admin'')
     = Inl (Error ''Client server owner privileges required. Current role: admin'')"
  by (simp add: session_with_role_def fresh_session_def no_metadata_def
        requireClientOwner_def isClientOwner_def getUserRole_def
        orElse_def ROLE_OWNER_def ROLE_USER_def)

section \<open>Properties of registration and lookup\<close>





subsection \<open>What a registration stores\<close>

lemma createClientServer_ignores_passed_credentials:
  "createClientServer w (rnd \<lparr> uuid_id := i, uuid_secret := x, salt := y \<rparr>)
       passed_id passed_hash name sch urls uid mode
     = createClientServer w rnd other_id other_hash name sch urls uid mode"
  by (simp add: createClientServer_def)

lemma register_core_stored_row:
  assumes "register_core w rnd name urls uid mode shown = Inr (reg, w')"
  shows "r_client_id reg = ''client_'' @ filter (\<lambda>c. c \<noteq> CHR ''-'') (uuid_id rnd)
       \<and> r_client_secret reg = uuid_secret rnd
       \<and> (\<exists>found_in rows row.
             w' = w \<lparr> tables := (tables w)(found_in \<mapsto> rows @ [row]) \<rparr>
             \<and> client_id row = ''client_'' @ filter (\<lambda>c. c \<noteq> CHR ''-'') (repo_uuid_id rnd)
             \<and> client_secret_hash row = bcrypt_hash w (repo_salt rnd) (repo_uuid_secret rnd))"
proof -
  from assms obtain n where n: "name = JStr n"
    by (cases name) (simp_all add: register_core_def Let_def)
  let ?sch = "schema_name_for n (now_ms w)"
  let ?cid = "''client_'' @ filter (\<lambda>c. c \<noteq> CHR ''-'') (uuid_id rnd)"
  from assms n obtain clientServer repo_secret where
    c: "createClientServer w rnd ?cid (bcrypt_hash w (salt rnd) (uuid_secret rnd))
          n ?sch urls uid mode = Inr (clientServer, repo_secret, w')"
    and reg: "reg = \<lparr> r_client_id = ?cid, r_client_secret = uuid_secret rnd, r_app_name = n,
                       r_assigned_schema_name = ?sch, r_allowed_return_urls = urls,
                       r_client_mode = shown \<rparr>"
    by (auto simp: register_core_def Let_def split: sum.splits if_splits prod.splits)
  from c obtain found_in rows where
    w': "w' = w \<lparr> tables := (tables w)(found_in \<mapsto> rows @ [clientServer]) \<rparr>"
    and row: "client_id clientServer
                = ''client_'' @ filter (\<lambda>c. c \<noteq> CHR ''-'') (repo_uuid_id rnd)"
      "client_secret_hash clientServer = bcrypt_hash w (repo_salt rnd) (repo_uuid_secret rnd)"
    by (auto simp: createClientServer_def Let_def split: sum.splits if_splits prod.splits)
  from reg w' row show ?thesis by auto
qed

text \<open>
  The half of C6 that holds: the world after a registration, and whether the
  registration succeeds at all, do not depend on the secret, the id or the
  salt that the service draws and returns. The returned plaintext is stored
  nowhere, hashed or not.
\<close>

lemma registration_world_ignores_returned_secret:
  "map_sum id snd (registerClientServer w (rnd \<lparr> uuid_id := i, uuid_secret := x, salt := y \<rparr>) body)
     = map_sum id snd (registerClientServer w rnd body)"
  and "map_sum id snd
         (registerClientServerForUser w (rnd \<lparr> uuid_id := i, uuid_secret := x, salt := y \<rparr>)
            body s)
     = map_sum id snd (registerClientServerForUser w rnd body s)"
proof -
  have core: "\<And>name urls uid mode shown.
      map_sum id snd (register_core w (rnd \<lparr> uuid_id := i, uuid_secret := x, salt := y \<rparr>)
                        name urls uid mode shown)
        = map_sum id snd (register_core w rnd name urls uid mode shown)"
    by (auto simp: register_core_def Let_def createClientServer_def
        split: jsval.splits sum.splits prod.splits)
  show "map_sum id snd
          (registerClientServer w (rnd \<lparr> uuid_id := i, uuid_secret := x, salt := y \<rparr>) body)
     = map_sum id snd (registerClientServer w rnd body)"
    by (cases "d_allowed_return_urls body") (simp_all add: registerClientServer_def core)
  show "map_sum id snd
         (registerClientServerForUser w (rnd \<lparr> uuid_id := i, uuid_secret := x, salt := y \<rparr>)
            body s)
     = map_sum id snd (registerClientServerForUser w rnd body s)"
    by (cases "d_allowed_return_urls body"; cases "d_client_mode body")
       (simp_all add: registerClientServerForUser_def Let_def core)
qed

lemma getClientServerInfo_never_returns:
  "getClientServerInfo w cid \<noteq> Inr info"
  by (simp add: getClientServerInfo_def getAuthInternalPool_def repo_getClientServer_def)

text \<open>
  C6, run on the code. Acme registers and is answered with the client id
  \<^verbatim>\<open>client_aaaa01\<close> and the secret \<^verbatim>\<open>secret-01\<close>. The row that
  the registration leaves in the database carries the id
  \<^verbatim>\<open>client_cccc03\<close> and the hash of \<^verbatim>\<open>secret-03\<close>, both drawn
  inside \<^verbatim>\<open>repo.createClientServer\<close>: the stored hash is not the hash
  of the returned secret, and comparing the returned secret with it fails.
  The row is written through the default tenant pool (here into
  \<^verbatim>\<open>public\<close>), the registry of \<^verbatim>\<open>auth_internal\<close> stays
  empty, and \<^verbatim>\<open>getClientServerInfo\<close> for the returned id raises a
  \<^verbatim>\<open>TypeError\<close> instead of returning the record.
\<close>

theorem registration_stores_hash_of_another_secret:
  "registerClientServer empty_world rnd1 acme_data = Inr (acme_registration, registered_world)
   \<and> r_client_id acme_registration = ''client_aaaa01''
   \<and> r_client_secret acme_registration = ''secret-01''
   \<and> tables registered_world ''public'' = Some [stored_row]
   \<and> tables registered_world ''auth_internal'' = Some []
   \<and> client_id stored_row = ''client_cccc03''
   \<and> client_secret_hash stored_row = toy_hash ''s3'' ''secret-03''
   \<and> \<not> bcrypt_compare registered_world ''secret-01'' (client_secret_hash stored_row)
   \<and> getClientServerInfo registered_world ''client_aaaa01''
       = Inl (TypeError ''repo.getClientServer is not a function'')"
proof -
  have run: "registerClientServer empty_world rnd1 acme_data
               = Inr (acme_registration, registered_world)"
    by (simp add: registerClientServer_def acme_data_def register_core_def
          createClientServer_def getAuthInternalPool_def unqualified_client_servers_def
          empty_world_def empty_tables_def rnd1_def schema_name_for_def Let_def
          default_schema_def orElse_def truthyStr_def
          sanitize_char_def toLowerCase_char_def string_of_nat.simps digit_char_def
          acme_registration_def registered_world_def stored_row_def)
  have tabs: "tables registered_world ''public'' = Some [stored_row]"
      "tables registered_world ''auth_internal'' = Some []"
    by (simp_all add: registered_world_def empty_tables_def)
  have cmp: "\<not> bcrypt_compare registered_world ''secret-01'' (client_secret_hash stored_row)"
    by (simp add: registered_world_def empty_world_def stored_row_def toy_compare_def
          toy_hash_def)
  have info: "getClientServerInfo registered_world ''client_aaaa01''
       = Inl (TypeError ''repo.getClientServer is not a function'')"
    by (simp add: getClientServerInfo_def getAuthInternalPool_def repo_getClientServer_def
          registered_world_def empty_world_def)
  from run tabs cmp info show ?thesis
    by (simp add: acme_registration_def stored_row_def)
qed

theorem registration_stores_hash_of_another_secret_witness:
  "client_id stored_row \<noteq> r_client_id acme_registration
   \<and> client_secret_hash stored_row \<noteq> toy_hash ''s1'' (r_client_secret acme_registration)
   \<and> isl (getClientServerInfo registered_world (r_client_id acme_registration))"
proof -
  note run = registration_stores_hash_of_another_secret
  from run have ids: "client_id stored_row \<noteq> r_client_id acme_registration"
    by simp
  from run have "client_secret_hash stored_row = toy_hash ''s3'' ''secret-03''"
    and "r_client_secret acme_registration = ''secret-01''"
    by blast+
  then have hashes: "client_secret_hash stored_row
                       \<noteq> toy_hash ''s1'' (r_client_secret acme_registration)"
    by (simp add: toy_hash_def)
  from run have "getClientServerInfo registered_world (r_client_id acme_registration)
       = Inl (TypeError ''repo.getClientServer is not a function'')"
    by simp
  then have "isl (getClientServerInfo registered_world (r_client_id acme_registration))"
    by simp
  with ids hashes show ?thesis by blast
qed

section \<open>Properties of the end-user login\<close>

lemma login_requires_equal_column:
  assumes "login seed st uuid1 uuid2 s cr = Inr (resp, s', st')"
  shows "\<exists>u \<in> set (users st (schema_of_session seed s)).
           Some (u_email u) = email cr \<and> Some (u_password_hash u) = password cr"
proof -
  from assms obtain e p where ep: "email cr = Some e" "password cr = Some p"
    by (auto simp: login_def Let_def truthyStr_def split: option.splits if_splits)
  with assms obtain u where
    u: "find (\<lambda>u. u_email u = e) (users st (schema_of_session seed s)) = Some u"
      and "u_password_hash u = p"
    by (auto simp: login_def Let_def getUserByEmail_def
        split: option.splits if_splits sum.splits)
  moreover from u have "u \<in> set (users st (schema_of_session seed s)) \<and> u_email u = e"
    by (auto simp: find_Some_iff)
  ultimately show ?thesis using ep by auto
qed

text \<open>
  C2, run on the code. Registering a user with password \<^verbatim>\<open>hunter2\<close>
  stores that very string in the column \<^verbatim>\<open>password_hash\<close>; a login with
  \<^verbatim>\<open>hunter2\<close> then succeeds because the supplied string equals the stored
  one. No hash is computed or verified on either path.
\<close>

theorem login_succeeds_by_plaintext_equality:
  "register None empty_store ''id-1'' fresh_session ann = Inr (''id-1'', ann_store)
   \<and> map u_password_hash (users ann_store ''client_template'') = [''hunter2'']
   \<and> map_sum id fst
        (login None ann_store ''sid-1'' ''sid-2'' fresh_session
           \<lparr> email = Some ''ann@example.com'', password = Some ''hunter2'' \<rparr>)
       = Inr \<lparr> l_id = ''id-1'', l_name = ''Ann'', l_role = ''user'',
               l_email = ''ann@example.com'', l_poolMetadata = None \<rparr>"
  by (simp add: register_def login_def Let_def schema_of_session_def orElse_def truthyStr_def
        getUserByEmail_def empty_store_def ann_def ann_row_def ann_store_def fresh_session_def
        fun_upd_def)

theorem login_succeeds_by_plaintext_equality_witness:
  "u_password_hash ann_row = ''hunter2''
   \<and> users ann_store ''client_template'' = [ann_row]
   \<and> \<not> isl (login None ann_store ''sid-1'' ''sid-2'' fresh_session
              \<lparr> email = Some ''ann@example.com'', password = Some ''hunter2'' \<rparr>)
   \<and> login None ann_store ''sid-1'' ''sid-2'' fresh_session
         \<lparr> email = Some ''ann@example.com'', password = Some ''hunter3'' \<rparr>
       = Inl (AuthError ''Invalid credentials'')"
proof -
  have wrong: "login None ann_store ''sid-1'' ''sid-2'' fresh_session
         \<lparr> email = Some ''ann@example.com'', password = Some ''hunter3'' \<rparr>
       = Inl (AuthError ''Invalid credentials'')"
    by (simp add: login_def Let_def schema_of_session_def orElse_def truthyStr_def
          getUserByEmail_def empty_store_def ann_row_def ann_store_def fresh_session_def)
  from login_succeeds_by_plaintext_equality
  have "\<not> isl (login None ann_store ''sid-1'' ''sid-2'' fresh_session
              \<lparr> email = Some ''ann@example.com'', password = Some ''hunter2'' \<rparr>)"
    by (cases "login None ann_store ''sid-1'' ''sid-2'' fresh_session
              \<lparr> email = Some ''ann@example.com'', password = Some ''hunter2'' \<rparr>") simp_all
  with wrong show ?thesis
    by (simp add: ann_row_def ann_store_def empty_store_def)
qed

section \<open>Properties of the connection pools\<close>

text \<open>
  The tenant half of C7 holds. When provisioning fails during
  \<^verbatim>\<open>getPoolForSchema\<close>, the call fails, the name stays out of
  \<^verbatim>\<open>schemas\<close>, and the next call for the same name sends
  \<^verbatim>\<open>CREATE SCHEMA IF NOT EXISTS\<close> again.
\<close>

lemma getPoolForSchema_failure_not_cached:
  assumes "schemas st n = None" and "connect_ok db"
    and "snd (run_statements db (initSchema_statements n)) = False"
    and "getPoolForSchema db st (Some n) = (r, st')"
  shows "(\<exists>e. r = Inl e) \<and> schemas st' n = None
         \<and> (connect_ok db' \<longrightarrow>
              (\<exists>more. executed (snd (getPoolForSchema db' st' (Some n)))
                        = executed st' @ CreateSchema n # more))"
proof -
  from assms have st': "st' = st \<lparr> next_handle := Suc (next_handle st),
      executed := executed st @ fst (run_statements db (initSchema_statements n)) \<rparr>"
    and r: "\<exists>e. r = Inl e"
    by (auto simp: getPoolForSchema_def Let_def split: prod.splits)
  from st' assms(1) have none: "schemas st' n = None" by simp
  have "connect_ok db' \<longrightarrow>
       (\<exists>more. executed (snd (getPoolForSchema db' st' (Some n)))
                  = executed st' @ CreateSchema n # more)"
    using none
    by (auto simp: getPoolForSchema_def Let_def initSchema_statements_def
        split: prod.splits if_splits)
  with r none show ?thesis by blast
qed

text \<open>
  C7, run on the control plane. On a server where creating the registry table
  fails, the first \<^verbatim>\<open>getPool()\<close> fails, yet the handle is already in the
  module variable \<^verbatim>\<open>pool\<close>; the second \<^verbatim>\<open>getPool()\<close>, even on a
  healthy server, returns that handle and sends no statement: provisioning is
  not attempted again. The tenant module, run on a like failure, keeps the
  name out of its cache.
\<close>

theorem getPool_caches_before_provisioning:
  "fst (getPool pg_registry_fails no_pools) = Inl (DatabaseError ''statement failed'')
   \<and> pool (snd (getPool pg_registry_fails no_pools)) = Some 0
   \<and> getPool pg_healthy (snd (getPool pg_registry_fails no_pools))
       = (Inr 0, snd (getPool pg_registry_fails no_pools))
   \<and> executed (snd (getPool pg_healthy (snd (getPool pg_registry_fails no_pools))))
       = [Begin, CreateSchema ''auth_internal'', SetLocalSearchPath ''auth_internal'',
          CreateTable ''auth_internal'' ''client_servers'']
   \<and> fst (getPoolForSchema pg_users_fails no_pools (Some ''client_acme_1''))
       = Inl (DatabaseError ''statement failed'')
   \<and> schemas (snd (getPoolForSchema pg_users_fails no_pools (Some ''client_acme_1'')))
        ''client_acme_1'' = None"
  by (simp add: getPool_def getPoolForSchema_def Let_def no_pools_def pg_registry_fails_def
        pg_users_fails_def pg_healthy_def ddl_auth_internal_def ddl_client_template_def
        initSchema_statements_def)

theorem getPool_caches_before_provisioning_witness:
  "isl (fst (getPool pg_registry_fails no_pools))
   \<and> pool (snd (getPool pg_registry_fails no_pools)) \<noteq> None
   \<and> \<not> isl (fst (getPool pg_healthy (snd (getPool pg_registry_fails no_pools))))
   \<and> CreateTable ''auth_internal'' ''client_servers''
       \<in> set (executed (snd (getPool pg_healthy (snd (getPool pg_registry_fails no_pools)))))
   \<and> \<not> stmt_ok pg_registry_fails (CreateTable ''auth_internal'' ''client_servers'')"
proof -
  have refused: "\<not> stmt_ok pg_registry_fails (CreateTable ''auth_internal'' ''client_servers'')"
    by (simp add: pg_registry_fails_def)
  note run = getPool_caches_before_provisioning
  from run have first: "isl (fst (getPool pg_registry_fails no_pools))"
    and cached: "pool (snd (getPool pg_registry_fails no_pools)) \<noteq> None"
    by simp_all
  from run have again: "getPool pg_healthy (snd (getPool pg_registry_fails no_pools))
                          = (Inr 0, snd (getPool pg_registry_fails no_pools))"
    by blast
  from run have sent: "executed (snd (getPool pg_healthy (snd (getPool pg_registry_fails no_pools))))
       = [Begin, CreateSchema ''auth_internal'', SetLocalSearchPath ''auth_internal'',
          CreateTable ''auth_internal'' ''client_servers'']"
    by blast
  have second: "\<not> isl (fst (getPool pg_healthy (snd (getPool pg_registry_fails no_pools))))"
    by (simp add: again)
  have attempted: "CreateTable ''auth_internal'' ''client_servers''
       \<in> set (executed (snd (getPool pg_healthy (snd (getPool pg_registry_fails no_pools)))))"
    by (simp add: sent)
  from first cached second attempted refused show ?thesis
    by blast
qed

section \<open>Properties of the API tokens\<close>

lemma verifyApiToken_library_error:
  assumes "tok \<noteq> Opaque []" and "jwt_verify tok (jwt_secret w) (now_s w) = Inl e"
  shows "verifyApiToken w tok = Inl (AuthError ''Invalid or expired token'')"
proof -
  from assms(2) have "is_token_library_error e"
    by (auto simp: jwt_verify_def split: token.splits if_splits option.splits)
  with assms show ?thesis
    by (simp add: verifyApiToken_def verifyApiToken_body_def)
qed

text \<open>
  The half of C8 that holds. \<^verbatim>\<open>verifyApiToken\<close> fails with an
  \<^verbatim>\<open>AuthError\<close> for every token whose signature is not that of the
  server's key, for every token of the server's key whose expiry has been
  reached, and for every token of the server's key that is not expired and
  whose \<^verbatim>\<open>type\<close> is not \<^verbatim>\<open>"api_token"\<close>: these three tests come
  before the registry is consulted.
\<close>

lemma verifyApiToken_rejects_bad_tokens:
  "(k \<noteq> jwt_secret w \<longrightarrow>
      verifyApiToken w (Signed k p) = Inl (AuthError ''Invalid or expired token''))
   \<and> (exp p = Some e \<and> e \<le> now_s w \<longrightarrow>
      verifyApiToken w (Signed (jwt_secret w) p) = Inl (AuthError ''Invalid or expired token''))
   \<and> ((\<forall>e. exp p = Some e \<longrightarrow> now_s w < e) \<and> t_type p \<noteq> Some ''api_token'' \<longrightarrow>
      verifyApiToken w (Signed (jwt_secret w) p) = Inl (AuthError ''Invalid token type''))"
proof (intro conjI impI)
  assume "k \<noteq> jwt_secret w"
  then have "jwt_verify (Signed k p) (jwt_secret w) (now_s w)
               = Inl (JsonWebTokenError ''invalid signature'')"
    by (simp add: jwt_verify_def)
  then show "verifyApiToken w (Signed k p) = Inl (AuthError ''Invalid or expired token'')"
    by (intro verifyApiToken_library_error) simp_all
next
  assume "exp p = Some e \<and> e \<le> now_s w"
  then have "jwt_verify (Signed (jwt_secret w) p) (jwt_secret w) (now_s w)
               = Inl (TokenExpiredError ''jwt expired'')"
    by (simp add: jwt_verify_def)
  then show "verifyApiToken w (Signed (jwt_secret w) p)
               = Inl (AuthError ''Invalid or expired token'')"
    by (intro verifyApiToken_library_error) simp_all
next
  assume a: "(\<forall>e. exp p = Some e \<longrightarrow> now_s w < e) \<and> t_type p \<noteq> Some ''api_token''"
  then have "jwt_verify (Signed (jwt_secret w) p) (jwt_secret w) (now_s w) = Inr p"
    by (cases "exp p") (auto simp: jwt_verify_def)
  with a show "verifyApiToken w (Signed (jwt_secret w) p) = Inl (AuthError ''Invalid token type'')"
    by (simp add: verifyApiToken_def verifyApiToken_body_def)
qed

text \<open>
  Neither function ever returns a result: each reaches the call of
  \<^verbatim>\<open>repo.getClientServer\<close>, or fails before it.
\<close>

lemma authenticateClientServer_never_succeeds:
  "authenticateClientServer w body \<noteq> Inr resp"
  by (auto simp: authenticateClientServer_def getAuthInternalPool_def repo_getClientServer_def
      split: option.splits)

lemma verifyApiToken_never_succeeds:
  "verifyApiToken w tok \<noteq> Inr info"
  by (auto simp: verifyApiToken_def verifyApiToken_body_def getAuthInternalPool_def
        repo_getClientServer_def
      split: sum.splits)

lemma verifyApiToken_valid_token:
  assumes "jwt_verify tok (jwt_secret w) (now_s w) = Inr p"
    and "t_type p = Some ''api_token''" and "db_up w"
  shows "verifyApiToken w tok = Inl (TypeError ''repo.getClientServer is not a function'')"
proof -
  from assms(1) have "tok \<noteq> Opaque []"
    by (auto simp: jwt_verify_def)
  with assms show ?thesis
    by (simp add: verifyApiToken_def verifyApiToken_body_def getAuthInternalPool_def
          repo_getClientServer_def)
qed

text \<open>
  C8, run on the code. The registry holds Acme's row, with the hash that
  matches Acme's secret. \<^verbatim>\<open>authenticateClientServer\<close> with Acme's
  credentials does not answer with a token: it raises the
  \<^verbatim>\<open>TypeError\<close> of \<^verbatim>\<open>repo.getClientServer\<close>, before
  \<^verbatim>\<open>bcrypt.compare\<close> and \<^verbatim>\<open>jwt.sign\<close>, so no token with a
  24-hour lifetime is issued. A token of the server's key, of type
  \<^verbatim>\<open>"api_token"\<close> and not expired, is refused with the same
  \<^verbatim>\<open>TypeError\<close>. The refusals of an expired token, of a token of
  another key and of a token of another type are \<^verbatim>\<open>AuthError\<close>s, as
  claimed.
\<close>

theorem authenticateClientServer_raises_before_signing:
  "tables acme_world ''public'' = Some [acme_row]
   \<and> client_id acme_row = ''client_aaaa01''
   \<and> bcrypt_compare acme_world ''secret-01'' (client_secret_hash acme_row)
   \<and> authenticateClientServer acme_world acme_credentials
       = Inl (TypeError ''repo.getClientServer is not a function'')
   \<and> verifyApiToken acme_world (Signed ''k'' acme_payload)
       = Inl (TypeError ''repo.getClientServer is not a function'')
   \<and> verifyApiToken acme_world_next_day (Signed ''k'' acme_payload)
       = Inl (AuthError ''Invalid or expired token'')
   \<and> verifyApiToken acme_world (Signed ''other-key'' acme_payload)
       = Inl (AuthError ''Invalid or expired token'')
   \<and> verifyApiToken acme_world (Signed ''k'' (acme_payload \<lparr> t_type := Some ''session'' \<rparr>))
       = Inl (AuthError ''Invalid token type'')"
proof -
  have secret: "jwt_secret acme_world = ''k''" "jwt_secret acme_world_next_day = ''k''"
    and clock: "now_s acme_world = 1700000000" "now_s acme_world_next_day = 1700086400"
    and up: "db_up acme_world"
    by (simp_all add: jwt_secret_def now_s_def orElse_def acme_world_def
          acme_world_next_day_def empty_world_def)
  have row: "tables acme_world ''public'' = Some [acme_row]"
      "client_id acme_row = ''client_aaaa01''"
      "bcrypt_compare acme_world ''secret-01'' (client_secret_hash acme_row)"
    by (simp_all add: acme_world_def empty_world_def empty_tables_def acme_row_def
          toy_compare_def)
  have issue: "authenticateClientServer acme_world acme_credentials
                 = Inl (TypeError ''repo.getClientServer is not a function'')"
    by (simp add: authenticateClientServer_def acme_credentials_def truthyStr_def
          getAuthInternalPool_def repo_getClientServer_def up)
  have good: "verifyApiToken acme_world (Signed ''k'' acme_payload)
                = Inl (TypeError ''repo.getClientServer is not a function'')"
    by (rule verifyApiToken_valid_token [where p = acme_payload])
       (simp_all add: jwt_verify_def secret clock up acme_payload_def)
  from verifyApiToken_rejects_bad_tokens
         [of "''k''" acme_world_next_day acme_payload 1700086400] secret clock
  have expired: "verifyApiToken acme_world_next_day (Signed ''k'' acme_payload)
                   = Inl (AuthError ''Invalid or expired token'')"
    by (simp add: acme_payload_def)
  from verifyApiToken_rejects_bad_tokens [of "''other-key''" acme_world acme_payload 0] secret
  have bad_key: "verifyApiToken acme_world (Signed ''other-key'' acme_payload)
                   = Inl (AuthError ''Invalid or expired token'')"
    by simp
  from verifyApiToken_rejects_bad_tokens
         [of "''k''" acme_world "acme_payload \<lparr> t_type := Some ''session'' \<rparr>" 0] secret clock
  have bad_type: "verifyApiToken acme_world
                    (Signed ''k'' (acme_payload \<lparr> t_type := Some ''session'' \<rparr>))
                   = Inl (AuthError ''Invalid token type'')"
    by (simp add: acme_payload_def)
  from row issue good expired bad_key bad_type show ?thesis by simp
qed

theorem authenticateClientServer_raises_before_signing_witness:
  "isl (authenticateClientServer acme_world acme_credentials)
   \<and> a_client_id acme_credentials = Some (client_id acme_row)
   \<and> a_client_secret acme_credentials = Some ''secret-01''
   \<and> isl (verifyApiToken acme_world (Signed ''k'' acme_payload))"
proof -
  note run = authenticateClientServer_raises_before_signing
  from run have a: "authenticateClientServer acme_world acme_credentials
                      = Inl (TypeError ''repo.getClientServer is not a function'')"
    and v: "verifyApiToken acme_world (Signed ''k'' acme_payload)
                      = Inl (TypeError ''repo.getClientServer is not a function'')"
    and c: "client_id acme_row = ''client_aaaa01''"
    by blast+
  from a v c show ?thesis
    by (simp add: acme_credentials_def)
qed

section \<open>Properties of the tenant resolver\<close>

lemma setDefaultSchema_keeps_context:
  assumes "truthyStr (poolContext (req_session r))"
  shows "req_session (setDefaultSchema w r) = req_session r"
  using assms by (simp add: setDefaultSchema_def)


lemma detectSchemaFromApiToken_never_resolves:
  "detectSchemaFromApiToken w req = req"
  by (auto simp: detectSchemaFromApiToken_def verifyApiToken_never_succeeds
      split: option.splits auth_header.splits sum.splits)

lemma detectSchemaFromApiToken_unresolved:
  assumes "\<forall>tok info. authorization req = Some (Bearer tok)
             \<longrightarrow> verifyApiToken w tok \<noteq> Inr info"
  shows "detectSchemaFromApiToken w req = req"
  using assms
  by (auto simp: detectSchemaFromApiToken_def split: option.splits auth_header.splits sum.splits)

lemma detectSchemaFromReturnUrl_unresolved:
  assumes "\<forall>c. matchingClient w req \<noteq> Inr (Some c)"
  shows "detectSchemaFromReturnUrl w req = req"
  using assms
  by (auto simp: detectSchemaFromReturnUrl_def split: sum.splits option.splits)

lemma detectSchemaFromReturnUrl_resolved:
  assumes "matchingClient w req = Inr (Some c)"
  shows "req_session (detectSchemaFromReturnUrl w req)
           = setPoolContext (req_session req) POOL_CLIENT_TENANT (assigned_schema_name c)
               (no_metadata \<lparr> m_client_id := Some (client_id c),
                  m_app_name := Some (app_name c),
                  m_client_mode := Some (client_mode c),
                  m_return_url := string_of_jsval (returnUrl req),
                  m_allowed_return_urls := Some (allowed_return_urls c),
                  m_user_role := Some ROLE_USER \<rparr>)"
  using assms by (simp add: detectSchemaFromReturnUrl_def)

lemma setPoolContext_truthy:
  "truthyStr (poolContext (setPoolContext s POOL_CLIENT_TENANT y z))"
  by (simp add: setPoolContext_def truthyStr_def POOL_CLIENT_TENANT_def)

text \<open>
  C1, run on the code. The registry holds Acme and Beta. The request carries
  a bearer token of the server's key, of type \<^verbatim>\<open>"api_token"\<close>, not
  expired and bound to Acme's schema, and a return URL that matches Beta.
  \<^verbatim>\<open>verifyApiToken\<close> raises the \<^verbatim>\<open>TypeError\<close> of
  \<^verbatim>\<open>repo.getClientServer\<close>, step 1 catches it as an invalid token, and
  \<^verbatim>\<open>detectSchema\<close> resolves through the return URL: pool context
  \<^verbatim>\<open>client_tenant\<close>, Beta's schema, role \<^verbatim>\<open>user\<close>.
\<close>

theorem valid_token_resolves_through_return_url:
  "authorization (acme_token_on_beta_url fresh_session)
     = Some (Bearer (Signed ''k'' acme_payload))
   \<and> jwt_verify (Signed ''k'' acme_payload) (jwt_secret two_tenants) (now_s two_tenants)
     = Inr acme_payload
   \<and> t_type acme_payload = Some ''api_token''
   \<and> t_schema acme_payload = ''client_acme_1700000000000''
   \<and> verifyApiToken two_tenants (Signed ''k'' acme_payload)
     = Inl (TypeError ''repo.getClientServer is not a function'')
   \<and> matchingClient two_tenants (acme_token_on_beta_url fresh_session) = Inr (Some beta_row)
   \<and> assigned_schema_name beta_row = ''client_beta_1700000000001''
   \<and> resolved (detectSchema two_tenants (acme_token_on_beta_url fresh_session))
     = (Some ''client_tenant'', Some ''client_beta_1700000000001'', ''user'')"
proof -
  have h: "authorization (acme_token_on_beta_url fresh_session)
             = Some (Bearer (Signed ''k'' acme_payload))"
    by (simp add: acme_token_on_beta_url_def)
  have j: "jwt_verify (Signed ''k'' acme_payload) (jwt_secret two_tenants) (now_s two_tenants)
             = Inr acme_payload"
    by (simp add: jwt_verify_def jwt_secret_def now_s_def orElse_def two_tenants_def
          empty_world_def acme_payload_def)
  have p: "t_type acme_payload = Some ''api_token''"
      "t_schema acme_payload = ''client_acme_1700000000000''"
    by (simp_all add: acme_payload_def)
  have up: "db_up two_tenants"
    by (simp add: two_tenants_def empty_world_def)
  note v = verifyApiToken_valid_token [OF j p(1) up]
  have m: "matchingClient two_tenants (acme_token_on_beta_url fresh_session)
             = Inr (Some beta_row)"
    by (simp add: matchingClient_def acme_token_on_beta_url_def beta_login_page_def
          plain_request_def all_client_servers_def two_tenants_def empty_world_def
          empty_tables_def acme_row_def beta_row_def url_matches_def startsWith_def)
  have r1: "detectSchemaFromApiToken two_tenants (acme_token_on_beta_url fresh_session)
              = acme_token_on_beta_url fresh_session"
    by (rule detectSchemaFromApiToken_never_resolves)
  have fresh: "req_session (acme_token_on_beta_url fresh_session) = fresh_session"
    by (simp add: acme_token_on_beta_url_def beta_login_page_def plain_request_def)
  note step2 = detectSchemaFromReturnUrl_resolved [OF m]
  have "req_session (detectSchema two_tenants (acme_token_on_beta_url fresh_session))
          = req_session (detectSchemaFromReturnUrl two_tenants
                           (acme_token_on_beta_url fresh_session))"
  proof -
    have unset: "\<not> truthyStr (poolContext (req_session (acme_token_on_beta_url fresh_session)))"
      using fresh by (simp add: fresh_session_def truthyStr_def)
    have set: "truthyStr (poolContext (req_session
                 (detectSchemaFromReturnUrl two_tenants (acme_token_on_beta_url fresh_session))))"
      by (simp add: step2 setPoolContext_truthy)
    show ?thesis
      by (simp add: detectSchema_def Let_def r1 unset set setDefaultSchema_keeps_context)
  qed
  with step2 have r: "resolved (detectSchema two_tenants (acme_token_on_beta_url fresh_session))
     = (Some ''client_tenant'', Some ''client_beta_1700000000001'', ''user'')"
    by (simp add: resolved_def setPoolContext_def POOL_CLIENT_TENANT_def getUserRole_def
          orElse_def ROLE_USER_def no_metadata_def beta_row_def)
  from h j p v m r show ?thesis
    by (simp add: beta_row_def)
qed

theorem valid_token_resolves_through_return_url_witness:
  "fst (snd (resolved (detectSchema two_tenants (acme_token_on_beta_url fresh_session))))
     \<noteq> Some (t_schema acme_payload)
   \<and> fst (resolved (detectSchema two_tenants (acme_token_on_beta_url fresh_session)))
     \<noteq> Some ''api_client''
   \<and> isl (verifyApiToken two_tenants (Signed ''k'' acme_payload))"
proof -
  note run = valid_token_resolves_through_return_url
  from run have r: "resolved (detectSchema two_tenants (acme_token_on_beta_url fresh_session))
     = (Some ''client_tenant'', Some ''client_beta_1700000000001'', ''user'')"
    and s: "t_schema acme_payload = ''client_acme_1700000000000''"
    and v: "verifyApiToken two_tenants (Signed ''k'' acme_payload)
     = Inl (TypeError ''repo.getClientServer is not a function'')"
    by blast+
  from r s v show ?thesis by simp
qed





text \<open>
  C4 (as the code has it). For a request with no bearer token that verifies,
  no client matching its return URL (none given, none matching, or the lookup
  failing), no logged-in user, and no pool context already stored in its
  session, \<^verbatim>\<open>detectSchema\<close> ends with pool context \<^verbatim>\<open>default\<close>, the
  configured default schema, role \<^verbatim>\<open>user\<close> and the fallback mark in the
  metadata. The errors raised on the way (database down, a return URL that is
  not a string) are caught inside the steps.
\<close>

theorem fallback_when_nothing_resolves:
  assumes "\<forall>tok info. authorization req = Some (Bearer tok)
             \<longrightarrow> verifyApiToken w tok \<noteq> Inr info"
    and "\<forall>c. matchingClient w req \<noteq> Inr (Some c)"
    and "\<not> truthyStr (userId (req_session req))"
    and "\<not> truthyStr (poolContext (req_session req))"
  shows "resolved (detectSchema w req) = (Some ''default'', Some (default_schema w), ''user'')
       \<and> (\<exists>m. poolMetadata (req_session (detectSchema w req)) = Some m
               \<and> m_fallback m = Some True)
       \<and> getSchemaFromRequest w (detectSchema w req)
           = orElse (req_schema req) (default_schema w)"
proof -
  note r1 = detectSchemaFromApiToken_unresolved [OF assms(1)]
    and r2 = detectSchemaFromReturnUrl_unresolved [OF assms(2)]
  from assms(3) have r3: "detectUserRole w req = req"
    by (simp add: detectUserRole_def Let_def)
  from r1 r2 r3 assms(4) have "detectSchema w req = setDefaultSchema w req"
    by (simp add: detectSchema_def Let_def)
  with assms(4) show ?thesis
    by (simp add: resolved_def setDefaultSchema_def setPoolContext_def POOL_DEFAULT_def
          getUserRole_def orElse_def ROLE_USER_def getSchemaFromRequest_def default_schema_def)
qed

theorem fallback_when_nothing_resolves_witness:
  "resolved (detectSchema two_tenants (plain_request fresh_session))
     = (Some ''default'', Some ''client_template'', ''user'')
   \<and> resolved (detectSchema (two_tenants \<lparr> db_up := False \<rparr>) (beta_login_page fresh_session))
     = (Some ''default'', Some ''client_template'', ''user'')
   \<and> matchingClient (two_tenants \<lparr> db_up := False \<rparr>) (beta_login_page fresh_session)
     = Inl (DatabaseError ''connection failed'')"
proof -
  have d: "default_schema two_tenants = ''client_template''"
      "default_schema (two_tenants \<lparr> db_up := False \<rparr>) = ''client_template''"
    by (simp_all add: default_schema_def orElse_def two_tenants_def empty_world_def)
  have down: "matchingClient (two_tenants \<lparr> db_up := False \<rparr>) (beta_login_page fresh_session)
     = Inl (DatabaseError ''connection failed'')"
    by (simp add: matchingClient_def beta_login_page_def plain_request_def
          all_client_servers_def)
  have none: "matchingClient two_tenants (plain_request fresh_session) = Inr None"
    by (simp add: matchingClient_def plain_request_def)
  from fallback_when_nothing_resolves [of "plain_request fresh_session" two_tenants] none d
  have a: "resolved (detectSchema two_tenants (plain_request fresh_session))
     = (Some ''default'', Some ''client_template'', ''user'')"
    by (simp add: plain_request_def fresh_session_def truthyStr_def)
  from fallback_when_nothing_resolves
         [of "beta_login_page fresh_session" "two_tenants \<lparr> db_up := False \<rparr>"] down d
  have b: "resolved (detectSchema (two_tenants \<lparr> db_up := False \<rparr>)
                       (beta_login_page fresh_session))
     = (Some ''default'', Some ''client_template'', ''user'')"
    by (simp add: beta_login_page_def plain_request_def fresh_session_def truthyStr_def)
  from a b down show ?thesis by simp
qed

text \<open>
  C4 as the specification states it fails. A request without bearer token,
  without return URL and without logged-in user, whose session still holds
  the tenant context stored by an earlier request, resolves to that tenant's
  schema, not to the default schema.
\<close>

theorem stale_session_context_is_not_default:
  "authorization (plain_request stale_tenant_session) = None
   \<and> returnUrl (plain_request stale_tenant_session) = Undefined
   \<and> userId stale_tenant_session = None
   \<and> default_schema empty_world = ''client_template''
   \<and> resolved (detectSchema empty_world (plain_request stale_tenant_session))
     = (Some ''client_tenant'', Some ''client_acme_1700000000000'', ''user'')"
  by (simp add: resolved_def detectSchema_def Let_def detectSchemaFromApiToken_def
        setDefaultSchema_def plain_request_def stale_tenant_session_def fresh_session_def
        truthyStr_def getUserRole_def orElse_def ROLE_USER_def no_metadata_def
        default_schema_def empty_world_def)

end
